theory Spec2Isabelle
  imports Main "HOL-Library.Sublist"
begin

section \<open>The comment API of gotell: the handler \<open>postComment\<close> and \<open>verify\<close>\<close>

text \<open>
  A shallow embedding of the package \<open>api\<close> (the handler \<open>postComment\<close>, its helper
  \<open>Min\<close> and the identity check \<open>verify\<close>). A Go \<open>string\<close> is a sequence of bytes and
  is modelled as a \<open>string\<close> (a list of \<open>char\<close>, one per byte); \<open>len\<close> and slicing
  count bytes, as in Go. A run-time panic of Go is a value of \<open>go_panic\<close>.

  The functions of Go's standard library that the handler calls are modelled from
  their documented behaviour. Three of them are modelled on ASCII strings only, and
  differ from Go on a string with a byte above 127: \<open>strings.ToLower\<close> (Go maps
  every Unicode letter, and the result can be longer or shorter than the
  argument), \<open>strings.TrimSpace\<close> (Go also trims Unicode white space) and
  \<open>slugify.ReplaceAllString\<close> (Go replaces a character of several bytes by one
  hyphen). That the slug is computed without a panic is therefore stated for
  arbitrary functions in their place (\<open>slug_with\<close>); the value of a slug is stated
  for an ASCII body only.
\<close>

subsection \<open>Panics, indexing and slicing\<close>

datatype go_panic = IndexOutOfRange | SliceOutOfRange | NilDereference

text \<open>\<open>xs[i]\<close>: panics unless \<open>0 \<le> i < len(xs)\<close>.\<close>

definition go_index :: "'a list \<Rightarrow> int \<Rightarrow> go_panic + 'a" where
  "go_index xs i =
     (if 0 \<le> i \<and> i < int (length xs) then Inr (xs ! nat i) else Inl IndexOutOfRange)"

text \<open>\<open>s[lo:hi]\<close>: panics unless \<open>0 \<le> lo \<le> hi \<le> len(s)\<close>.\<close>

definition go_slice :: "string \<Rightarrow> int \<Rightarrow> int \<Rightarrow> go_panic + string" where
  "go_slice s lo hi =
     (if 0 \<le> lo \<and> lo \<le> hi \<and> hi \<le> int (length s)
      then Inr (take (nat (hi - lo)) (drop (nat lo) s))
      else Inl SliceOutOfRange)"

text \<open>\<open>func Min(x, y int) int\<close> of the source.\<close>

definition Min_go :: "int \<Rightarrow> int \<Rightarrow> int" where
  "Min_go x y = (if x < y then x else y)"

subsection \<open>Package strings\<close>

definition newline :: char where
  "newline = CHR 0x0A"

definition isUpper :: "char \<Rightarrow> bool" where
  "isUpper c = (65 \<le> (of_char c :: nat) \<and> (of_char c :: nat) \<le> 90)"

definition isDigit :: "char \<Rightarrow> bool" where
  "isDigit c = (48 \<le> (of_char c :: nat) \<and> (of_char c :: nat) \<le> 57)"

definition isLower :: "char \<Rightarrow> bool" where
  "isLower c = (97 \<le> (of_char c :: nat) \<and> (of_char c :: nat) \<le> 122)"

text \<open>The white space of \<open>strings.TrimSpace\<close> below 128: tab, LF, VT, FF, CR, space.\<close>

definition isSpace :: "char \<Rightarrow> bool" where
  "isSpace c = ((9 \<le> (of_char c :: nat) \<and> (of_char c :: nat) \<le> 13) \<or> (of_char c :: nat) = 32)"

text \<open>
  \<open>strings.ToLower\<close> on an ASCII string: the letters A to Z become a to z. A byte
  above 127 is kept, where Go maps the Unicode letter it belongs to.
\<close>

definition ToLower :: "string \<Rightarrow> string" where
  "ToLower s = map (\<lambda>c. if isUpper c then char_of ((of_char c :: nat) + 32) else c) s"

text \<open>
  \<open>strings.TrimSpace\<close> on an ASCII string: the white space above is removed from
  both ends. Go also removes the Unicode white space (U+0085, U+00A0 and others).
\<close>

definition TrimSpace :: "string \<Rightarrow> string" where
  "TrimSpace s = rev (dropWhile isSpace (rev (dropWhile isSpace s)))"

text \<open>\<open>strings.Trim(s, cutset)\<close>: the bytes of \<open>cutset\<close> removed from both ends.\<close>

definition Trim :: "string \<Rightarrow> string \<Rightarrow> string" where
  "Trim s cutset =
     rev (dropWhile (\<lambda>c. c \<in> set cutset) (rev (dropWhile (\<lambda>c. c \<in> set cutset) s)))"

text \<open>\<open>strings.Index(s, sep)\<close>: the first position where \<open>sep\<close> starts, \<open>None\<close> for -1.\<close>

fun Index :: "string \<Rightarrow> string \<Rightarrow> nat option" where
  "Index [] sep = (if sep = [] then Some 0 else None)"
| "Index (c # cs) sep =
     (if prefix sep (c # cs) then Some 0 else map_option Suc (Index cs sep))"

definition Contains :: "string \<Rightarrow> string \<Rightarrow> bool" where
  "Contains s substr = (Index s substr \<noteq> None)"

text \<open>\<open>strings.Count(s, sep)\<close> for a non-empty \<open>sep\<close>: the occurrences that do not overlap.\<close>

fun Count_from :: "nat \<Rightarrow> string \<Rightarrow> string \<Rightarrow> nat" where
  "Count_from skip [] sep = 0"
| "Count_from skip (c # cs) sep =
     (if skip = 0 \<and> prefix sep (c # cs)
      then Suc (Count_from (length sep - 1) cs sep)
      else Count_from (skip - 1) cs sep)"

definition Count :: "string \<Rightarrow> string \<Rightarrow> nat" where
  "Count s sep = Count_from 0 s sep"

text \<open>
  The loop of \<open>genSplit\<close>: at most \<open>k\<close> cuts, each piece keeping \<open>sepSave\<close> bytes of
  the separator; the rest of the string is the last piece.
\<close>

fun genSplit_loop :: "nat \<Rightarrow> string \<Rightarrow> string \<Rightarrow> nat \<Rightarrow> string list" where
  "genSplit_loop 0 s sep sepSave = [s]"
| "genSplit_loop (Suc k) s sep sepSave =
     (case Index s sep of
        None \<Rightarrow> [s]
      | Some m \<Rightarrow> take (m + sepSave) s # genSplit_loop k (drop (m + length sep) s) sep sepSave)"

text \<open>\<open>explode(s, n)\<close>, the case of an empty separator: single bytes, at most \<open>n\<close> pieces.\<close>

fun explode_loop :: "nat \<Rightarrow> string \<Rightarrow> string list" where
  "explode_loop k [] = []"
| "explode_loop 0 (c # cs) = [c # cs]"
| "explode_loop (Suc k) (c # cs) = (if cs = [] then [[c]] else [c] # explode_loop k cs)"

definition explode :: "string \<Rightarrow> int \<Rightarrow> string list" where
  "explode s n =
     (let l = int (length s);
          n1 = (if n < 0 \<or> n > l then l else n)
      in explode_loop (nat (n1 - 1)) s)"

text \<open>
  \<open>genSplit(s, sep, sepSave, n)\<close>: \<open>n = 0\<close> gives nil, a negative \<open>n\<close> all pieces, a
  positive \<open>n\<close> at most \<open>n\<close> pieces, the last one the unsplit remainder.
\<close>

definition genSplit :: "string \<Rightarrow> string \<Rightarrow> nat \<Rightarrow> int \<Rightarrow> string list" where
  "genSplit s sep sepSave n =
     (if n = 0 then []
      else if sep = [] then explode s n
      else
        let n1 = (if n < 0 then int (Count s sep) + 1 else n);
            n2 = (if n1 > int (length s) + 1 then int (length s) + 1 else n1)
        in genSplit_loop (nat (n2 - 1)) s sep sepSave)"

definition Split :: "string \<Rightarrow> string \<Rightarrow> string list" where
  "Split s sep = genSplit s sep 0 (- 1)"

definition SplitAfterN :: "string \<Rightarrow> string \<Rightarrow> int \<Rightarrow> string list" where
  "SplitAfterN s sep n = genSplit s sep (length sep) n"

subsection \<open>The regular expressions of the package\<close>

text \<open>\<open>\W\<close>: every character that is not a letter, a digit or the underscore.\<close>

definition isWord :: "char \<Rightarrow> bool" where
  "isWord c = (isDigit c \<or> isUpper c \<or> isLower c \<or> c = CHR ''_'')"

text \<open>
  \<open>slugify = regexp.MustCompile(`\W`)\<close>, and its \<open>ReplaceAllString(s, repl)\<close> for a
  replacement without \<open>$\<close>, on an ASCII string: every non-word character becomes
  \<open>repl\<close>. A byte above 127 becomes \<open>repl\<close> too, where Go writes \<open>repl\<close> once for
  a character of several bytes.
\<close>

definition slugify_ReplaceAllString :: "string \<Rightarrow> string \<Rightarrow> string" where
  "slugify_ReplaceAllString s repl = concat (map (\<lambda>c. if isWord c then [c] else repl) s)"

text \<open>
  \<open>squeeze = regexp.MustCompile(`-+`)\<close>, and its \<open>ReplaceAllString(s, repl)\<close>: every
  maximal run of hyphens becomes \<open>repl\<close>.
\<close>

fun squeeze_ReplaceAllString :: "string \<Rightarrow> string \<Rightarrow> string" where
  "squeeze_ReplaceAllString [] repl = []"
| "squeeze_ReplaceAllString [c] repl = (if c = CHR ''-'' then repl else [c])"
| "squeeze_ReplaceAllString (c # d # cs) repl =
     (if c = CHR ''-''
      then (if d = CHR ''-'' then squeeze_ReplaceAllString (d # cs) repl
            else repl @ squeeze_ReplaceAllString (d # cs) repl)
      else c # squeeze_ReplaceAllString (d # cs) repl)"

subsection \<open>The slug of a comment (lines 102 and 103 of \<open>postComment\<close>)\<close>

text \<open>
  \<open>firstParagraph := strings.SplitAfterN(strings.ToLower(strings.TrimSpace(
     comment.Body[0:len(comment.Body)])), "\n", 1)[0]\<close>
\<close>

definition firstParagraph_of :: "string \<Rightarrow> go_panic + string" where
  "firstParagraph_of body =
     (case go_slice body 0 (int (length body)) of
        Inl p \<Rightarrow> Inl p
      | Inr b \<Rightarrow> go_index (SplitAfterN (ToLower (TrimSpace b)) [newline] 1) 0)"

text \<open>
  \<open>name := squeeze.ReplaceAllString(strings.Trim(slugify.ReplaceAllString(
     firstParagraph[0:Min(50, len(firstParagraph))], "-"), "-"), "-")\<close>
\<close>

definition name_of :: "string \<Rightarrow> go_panic + string" where
  "name_of firstParagraph =
     (case go_slice firstParagraph 0 (Min_go 50 (int (length firstParagraph))) of
        Inl p \<Rightarrow> Inl p
      | Inr t \<Rightarrow>
          Inr (squeeze_ReplaceAllString (Trim (slugify_ReplaceAllString t ''-'') ''-'') ''-''))"

text \<open>The two lines together: the slug of a comment body.\<close>

definition slug_of :: "string \<Rightarrow> go_panic + string" where
  "slug_of body =
     (case firstParagraph_of body of Inl p \<Rightarrow> Inl p | Inr firstParagraph \<Rightarrow> name_of firstParagraph)"

text \<open>
  Lines 102 and 103 once more, with \<open>strings.ToLower\<close>, \<open>strings.TrimSpace\<close> and
  \<open>slugify.ReplaceAllString\<close> as arbitrary functions: what can panic in the two lines
  (the two slices and the indexing) is there with the bounds of the source, whatever
  the three functions return.
\<close>

definition slug_with ::
  "(string \<Rightarrow> string) \<Rightarrow> (string \<Rightarrow> string) \<Rightarrow> (string \<Rightarrow> string \<Rightarrow> string) \<Rightarrow> string
     \<Rightarrow> go_panic + string" where
  "slug_with lower trim replace body =
     (case go_slice body 0 (int (length body)) of
        Inl p \<Rightarrow> Inl p
      | Inr b \<Rightarrow>
     (case go_index (SplitAfterN (lower (trim b)) [newline] 1) 0 of
        Inl p \<Rightarrow> Inl p
      | Inr firstParagraph \<Rightarrow>
     (case go_slice firstParagraph 0 (Min_go 50 (int (length firstParagraph))) of
        Inl p \<Rightarrow> Inl p
      | Inr t \<Rightarrow> Inr (squeeze_ReplaceAllString (Trim (replace t ''-'') ''-'') ''-''))))"

subsection \<open>Packages fmt, time and path\<close>

text \<open>\<open>fmt.Sprintf("%v", i)\<close> for an integer: its decimal digits, with a sign when negative.\<close>

definition digit :: "int \<Rightarrow> char" where
  "digit d = ''0123456789'' ! nat d"

function decimal :: "int \<Rightarrow> string" where
  "decimal n = (if n < 10 then [digit n] else decimal (n div 10) @ [digit (n mod 10)])"
  by pat_completeness auto
termination
  by (relation "measure nat") auto

definition Sprint :: "int \<Rightarrow> string" where
  "Sprint i = (if i < 0 then CHR ''-'' # decimal (- i) else decimal i)"

text \<open>Go's integer division truncates towards zero.\<close>

definition quo :: "int \<Rightarrow> int \<Rightarrow> int" where
  "quo a b = sgn a * sgn b * (\<bar>a\<bar> div \<bar>b\<bar>)"

text \<open>
  A \<open>time.Time\<close> is modelled by its \<open>UnixNano()\<close>, a \<open>time.Duration\<close> by its count of
  nanoseconds. \<open>t.Sub(u)\<close> is the difference, kept within the range of a \<open>Duration\<close>
  (an \<open>int64\<close>).
\<close>

definition maxDuration :: int where
  "maxDuration = 2 ^ 63 - 1"

definition minDuration :: int where
  "minDuration = - (2 ^ 63)"

definition Time_Sub :: "int \<Rightarrow> int \<Rightarrow> int" where
  "Time_Sub t u =
     (let d = t - u
      in if d > maxDuration then maxDuration else if d < minDuration then minDuration else d)"

text \<open>
  \<open>path.Clean\<close>: the elements of the path are read from left to right, an empty
  element and \<open>.\<close> are dropped, \<open>..\<close> removes the element before it (at the start
  of a rooted path it is dropped, at the start of another path it is kept). \<open>out\<close>
  holds the elements kept so far, the last one first.
\<close>

fun Clean_loop :: "bool \<Rightarrow> string list \<Rightarrow> string list \<Rightarrow> string list" where
  "Clean_loop rooted out [] = out"
| "Clean_loop rooted out (e # es) =
     (if e = [] \<or> e = ''.'' then Clean_loop rooted out es
      else if e = ''..'' then
        (case out of
           [] \<Rightarrow> Clean_loop rooted (if rooted then [] else [''..'']) es
         | t # ts \<Rightarrow> Clean_loop rooted (if t = ''..'' then e # t # ts else ts) es)
      else Clean_loop rooted (e # out) es)"

fun Join_strings :: "string list \<Rightarrow> string \<Rightarrow> string" where
  "Join_strings [] sep = []"
| "Join_strings [e] sep = e"
| "Join_strings (e # f # es) sep = e @ sep @ Join_strings (f # es) sep"

definition Clean :: "string \<Rightarrow> string" where
  "Clean p =
     (if p = [] then ''.''
      else
        let rooted = (hd p = CHR ''/'');
            out = Join_strings (rev (Clean_loop rooted [] (Split p ''/''))) ''/''
        in if rooted then CHR ''/'' # out else if out = [] then ''.'' else out)"

text \<open>\<open>path.Join\<close>: the empty elements are ignored, the rest is joined and cleaned.\<close>

definition path_Join :: "string list \<Rightarrow> string" where
  "path_Join elem =
     (let es = filter (\<lambda>e. e \<noteq> []) elem
      in if es = [] then [] else Clean (Join_strings es ''/''))"

subsection \<open>The data of a request\<close>

text \<open>
  Modelled from the spec: \<open>comments.RawComment\<close> is not among the sources. The spec
  lists its fields: author name, email, URL and body text from the submitter, and
  IP address, submission ID, submission date and verified flag from the server.
\<close>

record RawComment =
  Author :: string
  Email :: string
  URL :: string
  Body :: string
  IP :: string
  ID :: string
  Date :: string
  Verified :: bool

text \<open>
  Modelled from the spec: the type of \<open>s.getSettings()\<close> is not among the sources. The
  handler reads the five fields below; the spec calls them the banned source
  addresses, the banned email substrings, the banned keyword substrings, the time
  limit and the flag requiring approval. \<open>TimeLimit\<close> is converted by
  \<open>time.Duration(settings.TimeLimit)\<close>, which is the identity on a 64-bit integer.
\<close>

record settings =
  BannedIPs :: "string list"
  BannedEmails :: "string list"
  BannedKeywords :: "string list"
  TimeLimit :: int
  RequireApproval :: bool

text \<open>
  Modelled from the spec: the type that \<open>s.entryData\<close> returns is not among the
  sources. The handler reads the thread identifier and the creation time.
\<close>

record ThreadEntry =
  Thread :: string
  CreatedAt :: int

text \<open>The fields of \<open>conf.Configuration\<close> that the handler reads.\<close>

record Configuration =
  API_Repository :: string
  Threads_Source :: string
  JWT_Secret :: string

text \<open>
  An \<open>http.Request\<close>: the path of its URL, the remote address, the header (under
  its canonical keys) and the bytes of its body.
\<close>

record Request =
  URL_Path :: string
  RemoteAddr :: string
  Header :: "(string \<times> string list) list"
  ReqBody :: string

definition Header_Get :: "(string \<times> string list) list \<Rightarrow> string \<Rightarrow> string" where
  "Header_Get h key = (case map_of h key of Some (v # vs) \<Rightarrow> v | _ \<Rightarrow> [])"

definition Header_Set ::
  "(string \<times> string list) list \<Rightarrow> string \<Rightarrow> string \<Rightarrow> (string \<times> string list) list" where
  "Header_Set h key v = (key, [v]) # filter (\<lambda>kv. fst kv \<noteq> key) h"

definition Header_Add ::
  "(string \<times> string list) list \<Rightarrow> string \<Rightarrow> string \<Rightarrow> (string \<times> string list) list" where
  "Header_Add h key v =
     (case map_of h key of
        None \<Rightarrow> h @ [(key, [v])]
      | Some vs \<Rightarrow> map (\<lambda>kv. if fst kv = key then (key, snd kv @ [v]) else kv) h)"

subsection \<open>The response writer\<close>

text \<open>
  What is written to the response: a line of text (\<open>fmt.Fprintln\<close>), the object
  \<open>{"msg": message}\<close> that \<open>jsonError\<close> encodes, or the encoding of
  \<open>comments.ParseRaw(comment)\<close> (\<open>ParseRaw\<close> is not among the sources; the payload
  keeps its argument).
\<close>

datatype payload = Text string | JSON_msg string | JSON_parsed RawComment

text \<open>
  An \<open>http.ResponseWriter\<close>: \<open>w_status\<close> is \<open>None\<close> until the status line is written;
  the first \<open>Write\<close> without a \<open>WriteHeader\<close> before it sends status 200.
\<close>

record ResponseWriter =
  w_header :: "(string \<times> string list) list"
  w_status :: "nat option"
  w_body :: "payload list"

definition WriteHeader :: "ResponseWriter \<Rightarrow> nat \<Rightarrow> ResponseWriter" where
  "WriteHeader w code = (case w_status w of None \<Rightarrow> w\<lparr>w_status := Some code\<rparr> | Some c \<Rightarrow> w)"

definition Write :: "ResponseWriter \<Rightarrow> payload \<Rightarrow> ResponseWriter" where
  "Write w p =
     (case w_status w of
        None \<Rightarrow> w\<lparr>w_status := Some 200, w_body := w_body w @ [p]\<rparr>
      | Some c \<Rightarrow> w\<lparr>w_body := w_body w @ [p]\<rparr>)"

definition Fprintln :: "ResponseWriter \<Rightarrow> string \<Rightarrow> ResponseWriter" where
  "Fprintln w a = Write w (Text (a @ [newline]))"

text \<open>\<open>func jsonError(w http.ResponseWriter, message string, status int)\<close>\<close>

definition jsonError :: "ResponseWriter \<Rightarrow> string \<Rightarrow> nat \<Rightarrow> ResponseWriter" where
  "jsonError w message status = Write (WriteHeader w status) (JSON_msg message)"

subsection \<open>The content store\<close>

text \<open>
  The calls of the handler to the GitHub client, with their arguments: owner and
  repository first; then the branch (\<open>GetBranch\<close>); the reference and the commit it
  points at (\<open>CreateRef\<close>); the path, the commit message, the content and the branch
  (\<open>CreateFile\<close>, the content being \<open>json.Marshal(comment)\<close>, kept as the comment it
  encodes); the title, the head and the base (\<open>PullRequests_Create\<close>).
\<close>

datatype store_call =
    GetBranch string string string
  | CreateRef string string string string
  | CreateFile string string string string RawComment string
  | PullRequests_Create string string string string "string option"

text \<open>
  A \<open>github.Branch\<close>: its name and its commit, each a pointer that may be nil; the
  commit is given by its \<open>SHA\<close> field, again a pointer. \<open>GetSHA\<close> is the accessor of
  the library: the empty string for a nil commit or a nil field.
\<close>

record Branch =
  Name :: "string option"
  Commit :: "string option option"

definition GetSHA :: "string option option \<Rightarrow> string" where
  "GetSHA c = (case c of Some (Some sha) \<Rightarrow> sha | _ \<Rightarrow> [])"

text \<open>
  What the store answers to each call of one request: the branch and the error of
  \<open>GetBranch\<close> (the library returns a nil branch with every error), and the error
  of the three other calls (\<open>None\<close> for nil).
\<close>

record Client =
  GetBranch_reply :: "Branch option \<times> string option"
  CreateRef_reply :: "string option"
  CreateFile_reply :: "string option"
  PullRequests_Create_reply :: "string option"

text \<open>
  The server \<open>s\<close>: its configuration, its client, and the two methods of \<open>Server\<close>
  that are not among the sources, taken as they answer during the request:
  \<open>s.getSettings()\<close> and \<open>s.entryData(entryPath)\<close> (an error, or the thread).
\<close>

record Server =
  config :: Configuration
  client :: Client
  getSettings :: settings
  entryData :: "string \<Rightarrow> string + ThreadEntry"

subsection \<open>What the handler takes from outside the package\<close>

text \<open>A JWT as \<open>jwt.Parse\<close> decodes it: the algorithm of its header, its claims.\<close>

datatype claim = claim_string string | claim_other

record Token =
  Method_Alg :: string
  Claims :: "(string \<times> claim) list"
  Valid :: bool

text \<open>
  The readings of the clock (\<open>time.Now()\<close> at lines 66, 95, 96 and 108), the
  formatting of a time, the JSON decoder applied to the body of the request, the
  method \<open>IsSuspicious\<close> of \<open>comments.RawComment\<close> (not among the sources), and the
  parts of the JWT library: the decoding of a token string (\<open>None\<close> when it is
  malformed), the check of its registered claims, and the check of its signature
  against a key.
\<close>

record World =
  now_limit :: int
  now_date :: int
  now_id :: int
  now_file :: int
  Time_String :: "int \<Rightarrow> string"
  json_Decode :: "string \<Rightarrow> string + RawComment"
  IsSuspicious :: "RawComment \<Rightarrow> bool"
  jwt_decode :: "string \<Rightarrow> Token option"
  jwt_claims_valid :: "Token \<Rightarrow> bool"
  jwt_signature_ok :: "string \<Rightarrow> string \<Rightarrow> bool"

text \<open>
  \<open>jwt.Parse(tokenString, keyFunc)\<close>: the token is decoded, \<open>keyFunc\<close> gives the key
  or an error, the claims and the signature are checked; without an error the token
  is returned with \<open>Valid\<close> set.
\<close>

definition jwt_Parse :: "World \<Rightarrow> string \<Rightarrow> (Token \<Rightarrow> string + string) \<Rightarrow> string + Token" where
  "jwt_Parse wd tokenString keyFunc =
     (case jwt_decode wd tokenString of
        None \<Rightarrow> Inl ''token contains an invalid number of segments''
      | Some token \<Rightarrow>
          (case keyFunc token of
             Inl e \<Rightarrow> Inl e
           | Inr key \<Rightarrow>
               if \<not> jwt_claims_valid wd token then Inl ''token claims are invalid''
               else if \<not> jwt_signature_ok wd tokenString key then Inl ''signature is invalid''
               else Inr (token\<lparr>Valid := True\<rparr>)))"

subsection \<open>\<open>verify\<close>\<close>

text \<open>The class \<open>\s\<close> of Go's regular expressions: tab, LF, FF, CR and space.\<close>

definition isReSpace :: "char \<Rightarrow> bool" where
  "isReSpace c = (c = CHR 0x09 \<or> c = CHR 0x0A \<or> c = CHR 0x0C \<or> c = CHR 0x0D \<or> c = CHR '' '')"

text \<open>
  \<open>bearerRegexp = regexp.MustCompile(`^(?:B|b)earer (\S+$)`)\<close> and its
  \<open>FindStringSubmatch\<close>: the whole match and the group, or nil (the empty list). The
  expression is anchored at both ends, so it matches the whole header or nothing.
\<close>

definition bearerRegexp_FindStringSubmatch :: "string \<Rightarrow> string list" where
  "bearerRegexp_FindStringSubmatch h =
     (case h of
        [] \<Rightarrow> []
      | c # rest \<Rightarrow>
          if (c = CHR ''B'' \<or> c = CHR ''b'') \<and> take 6 rest = ''earer '' \<and> drop 6 rest \<noteq> []
             \<and> list_all (\<lambda>d. \<not> isReSpace d) (drop 6 rest)
          then [h, drop 6 rest]
          else [])"

text \<open>The key function that \<open>verify\<close> passes to \<open>jwt.Parse\<close> (lines 186 to 191).\<close>

definition keyFunc :: "Server \<Rightarrow> Token \<Rightarrow> string + string" where
  "keyFunc s token =
     (if Method_Alg token \<noteq> ''HS256''
      then Inl (''Unexpected signing method: '' @ Method_Alg token)
      else Inr (JWT_Secret (config s)))"

text \<open>\<open>func (s *Server) verify(email string, r *http.Request) bool\<close>\<close>

definition verify :: "Server \<Rightarrow> World \<Rightarrow> string \<Rightarrow> Request \<Rightarrow> bool" where
  "verify s wd email r =
     (let authHeader = Header_Get (Header r) ''Authorization''
      in if authHeader = [] then False
         else
           let matches = bearerRegexp_FindStringSubmatch authHeader
           in if length matches \<noteq> 2 then False
              else
                (case jwt_Parse wd (matches ! 1) (keyFunc s) of
                   Inl err \<Rightarrow> False
                 | Inr token \<Rightarrow>
                     if Valid token
                     then (case map_of (Claims token) ''email'' of
                             None \<Rightarrow> False
                           | Some claimedEmail \<Rightarrow> claimedEmail = claim_string email)
                     else False))"

subsection \<open>\<open>postComment\<close>\<close>

text \<open>
  \<open>threadRegexp = regexp.MustCompile(`(\d+)-(\d+)-(.+)`)\<close>. A match that starts at
  the head of the string: all the digits there (a shorter run of digits is followed
  by a digit, not by the hyphen), a hyphen, all the digits there, a hyphen, and the
  rest of the line (\<open>.\<close> matches every character but the newline), which must not
  be empty.
\<close>

definition threadRegexp_match_here :: "string \<Rightarrow> string list" where
  "threadRegexp_match_here s =
     (let d1 = takeWhile isDigit s; r1 = dropWhile isDigit s
      in if d1 = [] \<or> r1 = [] \<or> hd r1 \<noteq> CHR ''-'' then []
         else
           let d2 = takeWhile isDigit (tl r1); r2 = dropWhile isDigit (tl r1)
           in if d2 = [] \<or> r2 = [] \<or> hd r2 \<noteq> CHR ''-'' then []
              else
                let g3 = takeWhile (\<lambda>c. c \<noteq> newline) (tl r2)
                in if g3 = [] then [] else [d1 @ ''-'' @ d2 @ ''-'' @ g3, d1, d2, g3])"

text \<open>
  \<open>threadRegexp.FindStringSubmatch\<close>: the expression is not anchored, so the match
  is the one at the leftmost position that has one; nil (the empty list) without a
  match.
\<close>

fun threadRegexp_FindStringSubmatch :: "string \<Rightarrow> string list" where
  "threadRegexp_FindStringSubmatch [] = []"
| "threadRegexp_FindStringSubmatch (c # cs) =
     (if threadRegexp_match_here (c # cs) = [] then threadRegexp_FindStringSubmatch cs
      else threadRegexp_match_here (c # cs))"

text \<open>
  What a run of the handler leaves: the response as written, the calls made to the
  content store in their order, and the panic that ended the run, if one did.
\<close>

record result =
  response :: ResponseWriter
  store_calls :: "store_call list"
  panicked :: "go_panic option"

definition returns :: "ResponseWriter \<Rightarrow> store_call list \<Rightarrow> result" where
  "returns w cs = \<lparr>response = w, store_calls = cs, panicked = None\<rparr>"

definition panics :: "ResponseWriter \<Rightarrow> store_call list \<Rightarrow> go_panic \<Rightarrow> result" where
  "panics w cs p = \<lparr>response = w, store_calls = cs, panicked = Some p\<rparr>"

text \<open>The response writer as the server hands it to the handler.\<close>

definition new_writer :: ResponseWriter where
  "new_writer = \<lparr>w_header = [], w_status = None, w_body = []\<rparr>"

text \<open>The loop of lines 53 to 59: is the remote address one of the banned ones?\<close>

fun range_BannedIPs :: "string list \<Rightarrow> string \<Rightarrow> bool" where
  "range_BannedIPs [] addr = False"
| "range_BannedIPs (ip # ips) addr = (if addr = ip then True else range_BannedIPs ips addr)"

text \<open>
  The loops of lines 78 to 84 and 86 to 92: does the email, the body or the URL of
  the comment contain one of the banned strings?
\<close>

fun range_Banned :: "string list \<Rightarrow> RawComment \<Rightarrow> bool" where
  "range_Banned [] comment = False"
| "range_Banned (b # bs) comment =
     (if Contains (Email comment) b \<or> Contains (Body comment) b \<or> Contains (URL comment) b
      then True
      else range_Banned bs comment)"

text \<open>
  Lines 112 to 171: the comment is written to the store, through a branch and a
  pull request when the settings require approval or the comment is suspicious,
  directly on \<open>master\<close> otherwise; then the parsed comment is the response.
\<close>

definition postComment_store ::
  "Server \<Rightarrow> World \<Rightarrow> ResponseWriter \<Rightarrow> settings \<Rightarrow> string list \<Rightarrow> string \<Rightarrow> string
     \<Rightarrow> RawComment \<Rightarrow> result" where
  "postComment_store s wd w settings parts pathname firstParagraph comment =
     (let content = comment;
          branch = ''master''
      in if RequireApproval settings \<or> IsSuspicious wd comment then
           (let branch = ''comment-'' @ ID comment
            in case go_index parts 0 of
                 Inl p \<Rightarrow> panics w [] p
               | Inr owner \<Rightarrow>
            (case go_index parts 1 of
                 Inl p \<Rightarrow> panics w [] p
               | Inr repo \<Rightarrow>
            (let call1 = GetBranch owner repo ''master'';
                 master = fst (GetBranch_reply (client s));
                 err = snd (GetBranch_reply (client s))
             in case master of
                  None \<Rightarrow> panics w [call1] NilDereference
                | Some m \<Rightarrow>
            (let sha = GetSHA (Commit m);
                 refName = ''refs/heads/'' @ branch
             in case err of
                  Some e \<Rightarrow> returns (jsonError w (''Failed to write comment: '' @ e) 500) [call1]
                | None \<Rightarrow>
            (let call2 = CreateRef owner repo refName sha
             in case CreateRef_reply (client s) of
                  Some e \<Rightarrow>
                    returns (jsonError w (''Failed to create comment branch: '' @ e) 500)
                      [call1, call2]
                | None \<Rightarrow>
            (let message = firstParagraph;
                 call3 = CreateFile owner repo pathname message content branch
             in case CreateFile_reply (client s) of
                  Some e \<Rightarrow>
                    returns (jsonError w (''Failed to write comment: '' @ e) 500)
                      [call1, call2, call3]
                | None \<Rightarrow>
            (let call4 = PullRequests_Create owner repo message branch (Name m)
             in case PullRequests_Create_reply (client s) of
                  Some e \<Rightarrow>
                    returns (jsonError w (''Failed to create PR: '' @ e) 500)
                      [call1, call2, call3, call4]
                | None \<Rightarrow>
                    returns (Write w (JSON_parsed comment))
                      [call1, call2, call3, call4])))))))
         else
           (let message = firstParagraph
            in case go_index parts 0 of
                 Inl p \<Rightarrow> panics w [] p
               | Inr owner \<Rightarrow>
            (case go_index parts 1 of
                 Inl p \<Rightarrow> panics w [] p
               | Inr repo \<Rightarrow>
            (let call = CreateFile owner repo pathname message content branch
             in case CreateFile_reply (client s) of
                  Some e \<Rightarrow> returns (jsonError w (''Failed to write comment: '' @ e) 500) [call]
                | None \<Rightarrow> returns (Write w (JSON_parsed comment)) [call]))))"

text \<open>
  Lines 94 to 97: the fields of the comment that the server sets, in the order of
  the source (\<open>comment.Email\<close> is read after the first three assignments, which do
  not change it).
\<close>

definition assign_server_fields :: "Server \<Rightarrow> World \<Rightarrow> Request \<Rightarrow> RawComment \<Rightarrow> RawComment" where
  "assign_server_fields s wd req decoded =
     decoded\<lparr>IP := RemoteAddr req,
             Date := Time_String wd (now_date wd),
             ID := Sprint (now_id wd),
             Verified := verify s wd (Email decoded) req\<rparr>"

text \<open>
  Lines 94 to 111: the server's fields of the comment are set, the thread
  identifier is taken apart, the slug and the path of the file are computed. The
  indexing of \<open>matches\<close> and the slices of lines 102 and 103 can panic.
\<close>

definition postComment_file ::
  "Server \<Rightarrow> World \<Rightarrow> Request \<Rightarrow> ResponseWriter \<Rightarrow> settings \<Rightarrow> ThreadEntry \<Rightarrow> RawComment
     \<Rightarrow> result" where
  "postComment_file s wd req w settings entry decoded =
     (let comment = assign_server_fields s wd req decoded;
          parts = Split (API_Repository (config s)) ''/'';
          matches = threadRegexp_FindStringSubmatch (Thread entry)
      in case go_index matches 1 of
           Inl p \<Rightarrow> panics w [] p
         | Inr m1 \<Rightarrow>
      (case go_index matches 2 of
           Inl p \<Rightarrow> panics w [] p
         | Inr m2 \<Rightarrow>
      (case go_index matches 3 of
           Inl p \<Rightarrow> panics w [] p
         | Inr m3 \<Rightarrow>
      (let dir = m1 @ ''/'' @ m2 @ ''/'' @ m3
       in case firstParagraph_of (Body comment) of
            Inl p \<Rightarrow> panics w [] p
          | Inr firstParagraph \<Rightarrow>
      (case name_of firstParagraph of
            Inl p \<Rightarrow> panics w [] p
          | Inr name \<Rightarrow>
      (let pathname =
             path_Join [Threads_Source (config s), dir,
                        Sprint (quo (now_file wd) 1000000) @ ''-'' @ name @ ''.json'']
       in postComment_store s wd w settings parts pathname firstParagraph comment))))))"

text \<open>
  \<open>func (s *Server) postComment(ctx context.Context, w http.ResponseWriter,
  req *http.Request)\<close>, lines 47 to 92, then the two parts above.
\<close>

definition postComment :: "Server \<Rightarrow> World \<Rightarrow> Request \<Rightarrow> result" where
  "postComment s wd req =
     (let entryPath = URL_Path req;
          w = new_writer\<lparr>w_header := Header_Set (w_header new_writer) ''Content-Type'' ''application/json''\<rparr>;
          settings = getSettings s
      in if range_BannedIPs (BannedIPs settings) (RemoteAddr req) then
           returns (Fprintln (w\<lparr>w_header := Header_Add (w_header w) ''X-Banned'' ''IP-Banned''\<rparr>) ''{}'') []
         else
           (case entryData s entryPath of
              Inl err \<Rightarrow> returns (jsonError w (''Unable to read entry data: '' @ err) 400) []
            | Inr entry \<Rightarrow>
                if TimeLimit settings \<noteq> 0
                   \<and> Time_Sub (now_limit wd) (CreatedAt entry) > TimeLimit settings
                then returns (jsonError w ''Thread is closed for new comments'' 401) []
                else
                  (case json_Decode wd (ReqBody req) of
                     Inl err \<Rightarrow>
                       returns (jsonError w (''Error decoding JSON body: '' @ err) 422) []
                   | Inr comment \<Rightarrow>
                       if range_Banned (BannedEmails settings) comment then
                         returns (Fprintln (w\<lparr>w_header := Header_Add (w_header w) ''X-Banned'' ''Email-Banned''\<rparr>) ''{}'') []
                       else if range_Banned (BannedKeywords settings) comment then
                         returns (Fprintln (w\<lparr>w_header := Header_Add (w_header w) ''X-Banned'' ''Keyword-Banned''\<rparr>) ''{}'') []
                       else postComment_file s wd req w settings entry comment)))"

subsection \<open>The checks before the comment is filed\<close>

text \<open>
  The conditions under which a run of \<open>postComment\<close> goes past line 92, to the
  identity check and the filing of the comment: the remote address is not banned,
  the thread is resolved to \<open>entry\<close> and is not closed, the body decodes to
  \<open>decoded\<close>, and neither the banned emails nor the banned keywords occur in it.
\<close>

definition passes_checks :: "Server \<Rightarrow> World \<Rightarrow> Request \<Rightarrow> ThreadEntry \<Rightarrow> RawComment \<Rightarrow> bool" where
  "passes_checks s wd req entry decoded =
     (\<not> range_BannedIPs (BannedIPs (getSettings s)) (RemoteAddr req)
      \<and> entryData s (URL_Path req) = Inr entry
      \<and> \<not> (TimeLimit (getSettings s) \<noteq> 0
             \<and> Time_Sub (now_limit wd) (CreatedAt entry) > TimeLimit (getSettings s))
      \<and> json_Decode wd (ReqBody req) = Inr decoded
      \<and> \<not> range_Banned (BannedEmails (getSettings s)) decoded
      \<and> \<not> range_Banned (BannedKeywords (getSettings s)) decoded)"

subsection \<open>An example: a server, the world around it and a request\<close>

text \<open>
  A server for the repository \<open>netlify/comments\<close> with one banned address, one
  banned email, one banned keyword, no time limit and no approval required; a
  store that accepts every call; two published threads, the second with an
  identifier that has no numeric parts; a token for \<open>ann@example.org\<close>.
\<close>

definition ex_config :: Configuration where
  "ex_config = \<lparr>API_Repository = ''netlify/comments'', Threads_Source = ''threads'', JWT_Secret = ''secret''\<rparr>"

definition ex_settings :: settings where
  "ex_settings = \<lparr>BannedIPs = [''203.0.113.9''], BannedEmails = [''@spam.example''],
                   BannedKeywords = [''casino''], TimeLimit = 0, RequireApproval = False\<rparr>"

definition ex_client :: Client where
  "ex_client = \<lparr>GetBranch_reply = (Some \<lparr>Name = Some ''master'', Commit = Some (Some ''4f2a'')\<rparr>, None),
                 CreateRef_reply = None, CreateFile_reply = None, PullRequests_Create_reply = None\<rparr>"

definition ex_server :: Server where
  "ex_server = \<lparr>config = ex_config, client = ex_client, getSettings = ex_settings,
                 entryData = (\<lambda>p. if p = ''/2016/09/hello-world''
                                    then Inr \<lparr>Thread = ''2016-09-hello-world'', CreatedAt = 1000\<rparr>
                                    else if p = ''/about''
                                    then Inr \<lparr>Thread = ''about'', CreatedAt = 1000\<rparr>
                                    else Inl ''no such entry'')\<rparr>"

definition ex_world :: World where
  "ex_world = \<lparr>now_limit = 5000, now_date = 5001, now_id = 5002, now_file = 7000000,
                Time_String = Sprint,
                json_Decode = (\<lambda>b. if b = [] then Inl ''EOF''
                                    else Inr \<lparr>Author = ''Ann'', Email = ''ann@example.org'', URL = [],
                                              Body = b, IP = [], ID = [], Date = [], Verified = False\<rparr>),
                IsSuspicious = (\<lambda>c. Contains (Body c) ''http''),
                jwt_decode = (\<lambda>t. if t = ''good.token''
                                    then Some \<lparr>Method_Alg = ''HS256'',
                                               Claims = [(''email'', claim_string ''ann@example.org'')],
                                               Valid = False\<rparr>
                                    else None),
                jwt_claims_valid = (\<lambda>t. True),
                jwt_signature_ok = (\<lambda>t k. t = ''good.token'' \<and> k = ''secret'')\<rparr>"

definition ex_request :: Request where
  "ex_request = \<lparr>URL_Path = ''/2016/09/hello-world'', RemoteAddr = ''192.0.2.7'',
                  Header = [(''Authorization'', [''Bearer good.token''])],
                  ReqBody = ''Nice post!''\<rparr>"

subsection \<open>Results named in the properties\<close>

text \<open>
  The result of each of the three silent rejections (lines 55 to 57, 80 to 82 and 88
  to 90): the header \<open>X-Banned\<close> is added, \<open>{}\<close> is printed as a line, nothing else
  happens.
\<close>

definition silent_ban :: "string \<Rightarrow> result" where
  "silent_ban category =
     \<lparr>response = \<lparr>w_header = [(''Content-Type'', [''application/json'']), (''X-Banned'', [category])],
                   w_status = Some 200, w_body = [Text (''{}'' @ [newline])]\<rparr>,
      store_calls = [], panicked = None\<rparr>"

text \<open>
  A silent rejection as a client and the store see it: status 200, the body \<open>{}\<close>
  (a line), the header \<open>X-Banned\<close> naming the category, no call to the store.
\<close>

definition silently_rejected :: "string \<Rightarrow> result \<Rightarrow> bool" where
  "silently_rejected category r =
     (w_status (response r) = Some 200
      \<and> w_body (response r) = [Text (''{}'' @ [newline])]
      \<and> Header_Get (w_header (response r)) ''X-Banned'' = category
      \<and> store_calls r = []
      \<and> panicked r = None)"

text \<open>
  The path of the comment's file (lines 103 to 109), from the groups of the thread
  identifier and the body of the comment.
\<close>

definition pathname_of :: "Server \<Rightarrow> World \<Rightarrow> string list \<Rightarrow> string \<Rightarrow> string" where
  "pathname_of s wd matches body =
     path_Join [Threads_Source (config s),
                matches ! 1 @ ''/'' @ matches ! 2 @ ''/'' @ matches ! 3,
                Sprint (quo (now_file wd) 1000000) @ ''-''
                  @ squeeze_ReplaceAllString (Trim (slugify_ReplaceAllString (take 50 (ToLower (TrimSpace body))) ''-'') ''-'') ''-''
                  @ ''.json'']"




section \<open>Properties\<close>

subsection \<open>The slug\<close>

lemma go_slice_whole: "go_slice s 0 (int (length s)) = Inr s"
  by (simp add: go_slice_def)

lemma SplitAfterN_one: "SplitAfterN s [newline] 1 = [s]"
  by (simp add: SplitAfterN_def genSplit_def)

lemma firstParagraph_of_eq: "firstParagraph_of body = Inr (ToLower (TrimSpace body))"
  by (simp add: firstParagraph_of_def go_slice_whole SplitAfterN_one go_index_def)

lemma Min_go_clamps: "Min_go 50 (int n) = int (min 50 n)"
  by (simp add: Min_go_def min_def)

lemma go_slice_Min: "go_slice fp 0 (Min_go 50 (int (length fp))) = Inr (take 50 fp)"
  by (simp add: go_slice_def Min_go_def min_def)

lemma name_of_eq:
  "name_of fp = Inr (squeeze_ReplaceAllString (Trim (slugify_ReplaceAllString (take 50 fp) ''-'') ''-'') ''-'')"
  by (simp add: name_of_def go_slice_Min)

lemma slug_of_is_slug_with:
  "slug_of body = slug_with ToLower TrimSpace slugify_ReplaceAllString body"
  by (simp add: slug_of_def slug_with_def firstParagraph_of_eq name_of_eq go_slice_whole
      SplitAfterN_one go_index_def go_slice_Min)

text \<open>
  Claim C8. The slug is computed for every comment body, the empty one included:
  neither the two slices nor the indexing of lines 102 and 103 can panic, whatever
  \<open>strings.ToLower\<close>, \<open>strings.TrimSpace\<close> and \<open>slugify.ReplaceAllString\<close> return. The
  first slice is the whole body; \<open>SplitAfterN\<close> with one piece has an element 0;
  the bound of the truncation is \<open>Min(50, len(firstParagraph))\<close>, which is the length
  of the first paragraph when that is below 50, so the second slice stays in range.
\<close>

theorem slug_of_total:
  "\<exists>firstParagraph name.
     go_slice body 0 (int (length body)) = Inr body \<and>
     go_index (SplitAfterN (lower (trim body)) [newline] 1) 0 = Inr firstParagraph \<and>
     Min_go 50 (int (length firstParagraph)) = int (min 50 (length firstParagraph)) \<and>
     go_slice firstParagraph 0 (Min_go 50 (int (length firstParagraph)))
       = Inr (take 50 firstParagraph) \<and>
     slug_with lower trim replace body = Inr name \<and>
     slug_of body = slug_with ToLower TrimSpace slugify_ReplaceAllString body"
proof -
  let ?fp = "lower (trim body)"
  let ?name = "squeeze_ReplaceAllString (Trim (replace (take 50 ?fp) ''-'') ''-'') ''-''"
  have 1: "go_slice body 0 (int (length body)) = Inr body"
    by (rule go_slice_whole)
  have 2: "go_index (SplitAfterN ?fp [newline] 1) 0 = Inr ?fp"
    by (simp add: SplitAfterN_one go_index_def)
  have 3: "go_slice ?fp 0 (Min_go 50 (int (length ?fp))) = Inr (take 50 ?fp)"
    by (rule go_slice_Min)
  have 4: "slug_with lower trim replace body = Inr ?name"
    by (simp add: slug_with_def 1 2 3)
  from 1 2 3 4 Min_go_clamps [of "length ?fp"] slug_of_is_slug_with [of body] show ?thesis
    by blast
qed

theorem slug_of_total_witness:
  "slug_of [] = Inr []
   \<and> Min_go 50 (int (length ([] :: string))) = 0
   \<and> slug_with (\<lambda>s. s @ s) (\<lambda>s. s) slugify_ReplaceAllString ''ab cd'' = Inr ''ab-cdab-cd''"
proof -
  have "slug_of [] = Inr []
        \<and> slug_with (\<lambda>s. s @ s) (\<lambda>s. s) slugify_ReplaceAllString ''ab cd'' = Inr ''ab-cdab-cd''"
    by code_simp
  with slug_of_total [of "[]" ToLower TrimSpace slugify_ReplaceAllString] show ?thesis
    by (simp add: Min_go_def)
qed

text \<open>
  Claim C4. The slug is not taken from the first line of the body: line 102 asks
  \<open>strings.SplitAfterN\<close> for at most one piece, which is the whole string, so
  \<open>firstParagraph\<close> is the whole trimmed, lower-cased body. For the body
  "Hello, World!\<newline>more text" the slug is \<open>hello-world-more-text\<close>, not
  \<open>hello-world\<close>.
\<close>

theorem slug_is_whole_body:
  "slug_of (''Hello, World!'' @ [newline] @ ''more text'') = Inr ''hello-world-more-text''
   \<and> slug_of (''Hello, World!'' @ [newline] @ ''more text'') \<noteq> Inr ''hello-world''"
  by code_simp

text \<open>
  With two pieces asked for, the first one is the first line, and its slug is the
  one the example of the specification expects.
\<close>

lemma first_line_needs_two_pieces:
  "go_index (SplitAfterN (ToLower (TrimSpace (''Hello, World!'' @ [newline] @ ''more text''))) [newline] 2) 0
     = Inr (''hello, world!'' @ [newline])
   \<and> name_of (''hello, world!'' @ [newline]) = Inr ''hello-world''"
  by code_simp

subsection \<open>The abuse filter\<close>

lemma range_BannedIPs_iff: "range_BannedIPs ips addr \<longleftrightarrow> addr \<in> set ips"
  by (induction ips) auto

lemma Index_None_iff: "Index s sep = None \<longleftrightarrow> \<not> sublist sep s"
  by (induction s) (auto simp: sublist_Cons_right)

lemma Contains_iff_sublist: "Contains s substr \<longleftrightarrow> sublist substr s"
  by (simp add: Contains_def Index_None_iff)

lemma range_Banned_iff:
  "range_Banned bs c \<longleftrightarrow>
     (\<exists>b \<in> set bs. sublist b (Email c) \<or> sublist b (Body c) \<or> sublist b (URL c))"
  by (induction bs) (auto simp: Contains_iff_sublist)

lemmas writer_defs =
  returns_def Fprintln_def jsonError_def Write_def WriteHeader_def new_writer_def
  Header_Set_def Header_Add_def

lemma postComment_banned_ip:
  "range_BannedIPs (BannedIPs (getSettings s)) (RemoteAddr req) \<Longrightarrow>
   postComment s wd req = silent_ban ''IP-Banned''"
  by (simp add: postComment_def Let_def writer_defs silent_ban_def)

lemma postComment_banned_email:
  assumes "\<not> range_BannedIPs (BannedIPs (getSettings s)) (RemoteAddr req)"
    and "entryData s (URL_Path req) = Inr entry"
    and "\<not> (TimeLimit (getSettings s) \<noteq> 0 \<and> Time_Sub (now_limit wd) (CreatedAt entry) > TimeLimit (getSettings s))"
    and "json_Decode wd (ReqBody req) = Inr decoded"
    and "range_Banned (BannedEmails (getSettings s)) decoded"
  shows "postComment s wd req = silent_ban ''Email-Banned''"
  using assms by (auto simp add: postComment_def Let_def writer_defs silent_ban_def)

lemma postComment_banned_keyword:
  assumes "\<not> range_BannedIPs (BannedIPs (getSettings s)) (RemoteAddr req)"
    and "entryData s (URL_Path req) = Inr entry"
    and "\<not> (TimeLimit (getSettings s) \<noteq> 0 \<and> Time_Sub (now_limit wd) (CreatedAt entry) > TimeLimit (getSettings s))"
    and "json_Decode wd (ReqBody req) = Inr decoded"
    and "\<not> range_Banned (BannedEmails (getSettings s)) decoded"
    and "range_Banned (BannedKeywords (getSettings s)) decoded"
  shows "postComment s wd req = silent_ban ''Keyword-Banned''"
  using assms by (auto simp add: postComment_def Let_def writer_defs silent_ban_def)

lemma postComment_closed:
  assumes "\<not> range_BannedIPs (BannedIPs (getSettings s)) (RemoteAddr req)"
    and "entryData s (URL_Path req) = Inr entry"
    and "TimeLimit (getSettings s) \<noteq> 0"
    and "Time_Sub (now_limit wd) (CreatedAt entry) > TimeLimit (getSettings s)"
  shows "postComment s wd req =
     \<lparr>response = \<lparr>w_header = [(''Content-Type'', [''application/json''])], w_status = Some 401,
                   w_body = [JSON_msg ''Thread is closed for new comments'']\<rparr>,
      store_calls = [], panicked = None\<rparr>"
  using assms by (simp add: postComment_def Let_def writer_defs)

lemma postComment_passes:
  "passes_checks s wd req entry decoded \<Longrightarrow>
   postComment s wd req =
     postComment_file s wd req
       (new_writer\<lparr>w_header := Header_Set (w_header new_writer) ''Content-Type'' ''application/json''\<rparr>)
       (getSettings s) entry decoded"
  by (auto simp add: postComment_def passes_checks_def Let_def)

lemma silently_rejected_silent_ban: "silently_rejected category (silent_ban category)"
  by (simp add: silently_rejected_def silent_ban_def Header_Get_def)

text \<open>
  Claim C10. The check of the remote address comes first: a request from a banned
  address gets the silent rejection (status 200, body \<open>{}\<close>, \<open>X-Banned: IP-Banned\<close>,
  no call to the store) whatever its path and body, whatever the thread, the
  settings' time limit, the clock and the decoder. Two such requests get the same
  response, so a banned source observes no validation or thread-state error.
\<close>

theorem banned_address_sees_one_response:
  assumes "RemoteAddr req \<in> set (BannedIPs (getSettings s))"
    and "RemoteAddr req' \<in> set (BannedIPs (getSettings s'))"
  shows "postComment s wd req = postComment s' wd' req'
         \<and> silently_rejected ''IP-Banned'' (postComment s wd req)"
  using assms
  by (simp add: postComment_banned_ip range_BannedIPs_iff silently_rejected_silent_ban)

theorem banned_address_sees_one_response_witness:
  "RemoteAddr (ex_request\<lparr>RemoteAddr := ''203.0.113.9'', URL_Path := ''/nothing'', ReqBody := []\<rparr>)
     \<in> set (BannedIPs (getSettings ex_server))
   \<and> RemoteAddr (ex_request\<lparr>RemoteAddr := ''203.0.113.9''\<rparr>)
     \<in> set (BannedIPs (getSettings (ex_server\<lparr>getSettings := ex_settings\<lparr>TimeLimit := 3000\<rparr>\<rparr>)))
   \<and> postComment ex_server ex_world
        (ex_request\<lparr>RemoteAddr := ''203.0.113.9'', URL_Path := ''/nothing'', ReqBody := []\<rparr>)
     = postComment (ex_server\<lparr>getSettings := ex_settings\<lparr>TimeLimit := 3000\<rparr>\<rparr>) ex_world
        (ex_request\<lparr>RemoteAddr := ''203.0.113.9''\<rparr>)
   \<and> w_status (response (postComment ex_server ex_world
        (ex_request\<lparr>RemoteAddr := ''203.0.113.9'', URL_Path := ''/nothing'', ReqBody := []\<rparr>))) = Some 200"
proof -
  have 1: "RemoteAddr (ex_request\<lparr>RemoteAddr := ''203.0.113.9'', URL_Path := ''/nothing'', ReqBody := []\<rparr>)
     \<in> set (BannedIPs (getSettings ex_server))"
    by (simp add: ex_server_def ex_settings_def)
  have 2: "RemoteAddr (ex_request\<lparr>RemoteAddr := ''203.0.113.9''\<rparr>)
     \<in> set (BannedIPs (getSettings (ex_server\<lparr>getSettings := ex_settings\<lparr>TimeLimit := 3000\<rparr>\<rparr>)))"
    by (simp add: ex_settings_def)
  note both = banned_address_sees_one_response [OF 1 2, of ex_world ex_world]
  from both have 3: "postComment ex_server ex_world
        (ex_request\<lparr>RemoteAddr := ''203.0.113.9'', URL_Path := ''/nothing'', ReqBody := []\<rparr>)
     = postComment (ex_server\<lparr>getSettings := ex_settings\<lparr>TimeLimit := 3000\<rparr>\<rparr>) ex_world
        (ex_request\<lparr>RemoteAddr := ''203.0.113.9''\<rparr>)"
    by (rule conjunct1)
  from both have 4: "w_status (response (postComment ex_server ex_world
        (ex_request\<lparr>RemoteAddr := ''203.0.113.9'', URL_Path := ''/nothing'', ReqBody := []\<rparr>))) = Some 200"
    unfolding silently_rejected_def by blast
  from 1 2 3 4 show ?thesis
    by (intro conjI)
qed

text \<open>
  Claim C3. A request whose remote address equals a banned address, and a request
  whose comment is decoded (the address is not banned, the thread is resolved and
  not closed) and holds a banned email or a banned keyword as a substring of its
  email, body or URL, is answered with status 200, the body \<open>{}\<close>, the header
  \<open>X-Banned\<close> naming the category (the banned emails are looked at before the
  banned keywords), and no call to the store. The body is written by
  \<open>fmt.Fprintln\<close>, so a newline follows the braces.
\<close>

theorem banned_submission_is_silently_rejected:
  "(RemoteAddr req \<in> set (BannedIPs (getSettings s))
      \<longrightarrow> silently_rejected ''IP-Banned'' (postComment s wd req))
   \<and> (RemoteAddr req \<notin> set (BannedIPs (getSettings s))
       \<and> entryData s (URL_Path req) = Inr entry
       \<and> \<not> (TimeLimit (getSettings s) \<noteq> 0
              \<and> Time_Sub (now_limit wd) (CreatedAt entry) > TimeLimit (getSettings s))
       \<and> json_Decode wd (ReqBody req) = Inr decoded
       \<and> (\<exists>b \<in> set (BannedEmails (getSettings s)) \<union> set (BannedKeywords (getSettings s)).
             sublist b (Email decoded) \<or> sublist b (Body decoded) \<or> sublist b (URL decoded))
      \<longrightarrow> (if \<exists>b \<in> set (BannedEmails (getSettings s)).
                  sublist b (Email decoded) \<or> sublist b (Body decoded) \<or> sublist b (URL decoded)
           then silently_rejected ''Email-Banned'' (postComment s wd req)
           else silently_rejected ''Keyword-Banned'' (postComment s wd req)))"
proof (intro conjI impI)
  assume "RemoteAddr req \<in> set (BannedIPs (getSettings s))"
  then show "silently_rejected ''IP-Banned'' (postComment s wd req)"
    by (simp add: postComment_banned_ip range_BannedIPs_iff silently_rejected_silent_ban)
next
  assume a: "RemoteAddr req \<notin> set (BannedIPs (getSettings s))
       \<and> entryData s (URL_Path req) = Inr entry
       \<and> \<not> (TimeLimit (getSettings s) \<noteq> 0
              \<and> Time_Sub (now_limit wd) (CreatedAt entry) > TimeLimit (getSettings s))
       \<and> json_Decode wd (ReqBody req) = Inr decoded
       \<and> (\<exists>b \<in> set (BannedEmails (getSettings s)) \<union> set (BannedKeywords (getSettings s)).
             sublist b (Email decoded) \<or> sublist b (Body decoded) \<or> sublist b (URL decoded))"
  then have ip: "\<not> range_BannedIPs (BannedIPs (getSettings s)) (RemoteAddr req)"
    by (simp add: range_BannedIPs_iff)
  from a have entry: "entryData s (URL_Path req) = Inr entry"
    and "open": "\<not> (TimeLimit (getSettings s) \<noteq> 0
              \<and> Time_Sub (now_limit wd) (CreatedAt entry) > TimeLimit (getSettings s))"
    and dec: "json_Decode wd (ReqBody req) = Inr decoded"
    by blast+
  from a have some: "range_Banned (BannedEmails (getSettings s)) decoded
                     \<or> range_Banned (BannedKeywords (getSettings s)) decoded"
    unfolding range_Banned_iff by blast
  show "if \<exists>b \<in> set (BannedEmails (getSettings s)).
                  sublist b (Email decoded) \<or> sublist b (Body decoded) \<or> sublist b (URL decoded)
           then silently_rejected ''Email-Banned'' (postComment s wd req)
           else silently_rejected ''Keyword-Banned'' (postComment s wd req)"
  proof (cases "range_Banned (BannedEmails (getSettings s)) decoded")
    case True
    with postComment_banned_email [OF ip entry "open" dec] show ?thesis
      by (simp add: range_Banned_iff silently_rejected_silent_ban)
  next
    case False
    with some have kw: "range_Banned (BannedKeywords (getSettings s)) decoded"
      by blast
    from postComment_banned_keyword [OF ip entry "open" dec False kw] False show ?thesis
      by (simp add: range_Banned_iff silently_rejected_silent_ban)
  qed
qed

theorem banned_submission_is_silently_rejected_witness:
  "RemoteAddr (ex_request\<lparr>ReqBody := ''win at the casino''\<rparr>) \<notin> set (BannedIPs (getSettings ex_server))
   \<and> json_Decode ex_world (ReqBody (ex_request\<lparr>ReqBody := ''win at the casino''\<rparr>))
       = Inr \<lparr>Author = ''Ann'', Email = ''ann@example.org'', URL = [], Body = ''win at the casino'',
              IP = [], ID = [], Date = [], Verified = False\<rparr>
   \<and> sublist ''casino'' ''win at the casino''
   \<and> silently_rejected ''Keyword-Banned''
        (postComment ex_server ex_world (ex_request\<lparr>ReqBody := ''win at the casino''\<rparr>))"
proof -
  let ?req = "ex_request\<lparr>ReqBody := ''win at the casino''\<rparr>"
  let ?entry = "\<lparr>Thread = ''2016-09-hello-world'', CreatedAt = 1000\<rparr>"
  let ?decoded = "\<lparr>Author = ''Ann'', Email = ''ann@example.org'', URL = [], Body = ''win at the casino'',
              IP = [], ID = [], Date = [], Verified = False\<rparr>"
  have 1: "RemoteAddr ?req \<notin> set (BannedIPs (getSettings ex_server))"
    by code_simp
  have 2: "entryData ex_server (URL_Path ?req) = Inr ?entry"
    by code_simp
  have 3: "\<not> (TimeLimit (getSettings ex_server) \<noteq> 0
              \<and> Time_Sub (now_limit ex_world) (CreatedAt ?entry) > TimeLimit (getSettings ex_server))"
    by code_simp
  have 4: "json_Decode ex_world (ReqBody ?req) = Inr ?decoded"
    by code_simp
  have 5: "\<exists>b \<in> set (BannedEmails (getSettings ex_server)) \<union> set (BannedKeywords (getSettings ex_server)).
             sublist b (Email ?decoded) \<or> sublist b (Body ?decoded) \<or> sublist b (URL ?decoded)"
    by code_simp
  have 6: "\<not> (\<exists>b \<in> set (BannedEmails (getSettings ex_server)).
             sublist b (Email ?decoded) \<or> sublist b (Body ?decoded) \<or> sublist b (URL ?decoded))"
    by code_simp
  have 7: "sublist ''casino'' ''win at the casino''"
    by code_simp
  from banned_submission_is_silently_rejected [where req = ?req and s = ex_server and entry = ?entry and wd = ex_world and decoded = ?decoded] 1 2 3 4 5 6
  have "silently_rejected ''Keyword-Banned'' (postComment ex_server ex_world ?req)"
    by presburger
  with 1 4 7 show ?thesis
    by (intro conjI)
qed

subsection \<open>The filing of the comment\<close>

lemma match_here_cases:
  "threadRegexp_match_here s = [] \<or> (\<exists>m0 m1 m2 m3. threadRegexp_match_here s = [m0, m1, m2, m3])"
  by (simp add: threadRegexp_match_here_def Let_def)

lemma FindStringSubmatch_cases:
  "threadRegexp_FindStringSubmatch t = [] \<or>
   (\<exists>m0 m1 m2 m3. threadRegexp_FindStringSubmatch t = [m0, m1, m2, m3])"
proof (induction t)
  case Nil
  then show ?case by simp
next
  case (Cons c cs)
  from match_here_cases [of "c # cs"] Cons show ?case by auto
qed

lemma postComment_file_unmatched:
  "threadRegexp_FindStringSubmatch (Thread entry) = [] \<Longrightarrow>
   postComment_file s wd req w st entry decoded = panics w [] IndexOutOfRange"
  by (simp add: postComment_file_def Let_def go_index_def)

lemma Body_assign [simp]: "Body (assign_server_fields s wd req decoded) = Body decoded"
  by (simp add: assign_server_fields_def)

lemma postComment_file_matched:
  assumes "threadRegexp_FindStringSubmatch (Thread entry) = [m0, m1, m2, m3]"
  shows "postComment_file s wd req w st entry decoded =
     postComment_store s wd w st (Split (API_Repository (config s)) ''/'')
       (pathname_of s wd [m0, m1, m2, m3] (Body decoded))
       (ToLower (TrimSpace (Body decoded)))
       (assign_server_fields s wd req decoded)"
  using assms
  by (simp add: postComment_file_def Let_def go_index_def firstParagraph_of_eq name_of_eq pathname_of_def)

lemma store_direct:
  assumes "\<not> (RequireApproval st \<or> IsSuspicious wd c)"
  shows "postComment_store s wd w st (owner # repo # rest) path fp c =
     returns (case CreateFile_reply (client s) of
                Some e \<Rightarrow> jsonError w (''Failed to write comment: '' @ e) 500
              | None \<Rightarrow> Write w (JSON_parsed c))
       [CreateFile owner repo path fp c ''master'']"
  using assms
  by (simp add: postComment_store_def Let_def go_index_def split: option.splits)

lemma store_reviewed_nil_branch:
  assumes "RequireApproval st \<or> IsSuspicious wd c"
    and "fst (GetBranch_reply (client s)) = None"
  shows "postComment_store s wd w st (owner # repo # rest) path fp c =
     panics w [GetBranch owner repo ''master''] NilDereference"
  using assms
  by (simp add: postComment_store_def Let_def go_index_def split: option.splits)

lemma store_reviewed_branch:
  assumes "RequireApproval st \<or> IsSuspicious wd c"
    and "fst (GetBranch_reply (client s)) = Some m"
  shows "postComment_store s wd w st (owner # repo # rest) path fp c =
     (let branch = ''comment-'' @ ID c;
          call1 = GetBranch owner repo ''master'';
          call2 = CreateRef owner repo (''refs/heads/'' @ branch) (GetSHA (Commit m));
          call3 = CreateFile owner repo path fp c branch;
          call4 = PullRequests_Create owner repo fp branch (Name m)
      in case snd (GetBranch_reply (client s)) of
           Some e \<Rightarrow> returns (jsonError w (''Failed to write comment: '' @ e) 500) [call1]
         | None \<Rightarrow>
        (case CreateRef_reply (client s) of
           Some e \<Rightarrow> returns (jsonError w (''Failed to create comment branch: '' @ e) 500) [call1, call2]
         | None \<Rightarrow>
        (case CreateFile_reply (client s) of
           Some e \<Rightarrow> returns (jsonError w (''Failed to write comment: '' @ e) 500) [call1, call2, call3]
         | None \<Rightarrow>
        (case PullRequests_Create_reply (client s) of
           Some e \<Rightarrow> returns (jsonError w (''Failed to create PR: '' @ e) 500) [call1, call2, call3, call4]
         | None \<Rightarrow> returns (Write w (JSON_parsed c)) [call1, call2, call3, call4]))))"
  using assms
  by (simp add: postComment_store_def Let_def go_index_def split: option.splits)

lemma store_short_parts:
  assumes "length parts < 2"
  shows "postComment_store s wd w st parts path fp c = panics w [] IndexOutOfRange"
  using assms
  by (simp add: postComment_store_def Let_def go_index_def split: option.splits)

lemma store_status:
  "w_status w = None \<Longrightarrow>
   w_status (response (postComment_store s wd w st parts path fp c)) \<in> {None, Some 200, Some 500}"
  by (simp add: postComment_store_def Let_def returns_def panics_def jsonError_def Write_def
      WriteHeader_def split: sum.splits option.splits)

lemma file_status:
  assumes "w_status w = None"
  shows "w_status (response (postComment_file s wd req w st entry decoded)) \<in> {None, Some 200, Some 500}"
proof (cases "threadRegexp_FindStringSubmatch (Thread entry) = []")
  case True
  with assms show ?thesis
    by (simp add: postComment_file_unmatched panics_def)
next
  case False
  with FindStringSubmatch_cases [of "Thread entry"]
  obtain m0 m1 m2 m3 where "threadRegexp_FindStringSubmatch (Thread entry) = [m0, m1, m2, m3]"
    by blast
  then show ?thesis
    by (simp only: postComment_file_matched store_status [OF assms])
qed

lemma postComment_status_401:
  assumes "w_status (response (postComment s wd req)) = Some 401"
  shows "TimeLimit (getSettings s) \<noteq> 0"
proof
  assume zero: "TimeLimit (getSettings s) = 0"
  let ?w = "new_writer\<lparr>w_header := Header_Set (w_header new_writer) ''Content-Type'' ''application/json''\<rparr>"
  have none: "w_status ?w = None"
    by (simp add: new_writer_def)
  have "w_status (response (postComment s wd req)) \<noteq> Some 401"
  proof (cases "range_BannedIPs (BannedIPs (getSettings s)) (RemoteAddr req)")
    case True
    then show ?thesis
      by (simp add: postComment_banned_ip silent_ban_def)
  next
    case ip: False
    show ?thesis
    proof (cases "entryData s (URL_Path req)")
      case (Inl err)
      with ip show ?thesis
        by (simp add: postComment_def Let_def writer_defs)
    next
      case entry: (Inr entry)
      show ?thesis
      proof (cases "json_Decode wd (ReqBody req)")
        case (Inl err)
        with ip entry zero show ?thesis
          by (simp add: postComment_def Let_def writer_defs)
      next
        case (Inr decoded)
        from file_status [OF none, of s wd req "getSettings s" entry decoded]
        have "w_status (response (postComment_file s wd req ?w (getSettings s) entry decoded)) \<noteq> Some 401"
          by auto
        with ip entry zero Inr show ?thesis
          by (simp add: postComment_def Let_def returns_def Fprintln_def Write_def new_writer_def)
      qed
    qed
  qed
  with assms show False by simp
qed

lemma jwt_Parse_now_limit: "jwt_Parse (wd\<lparr>now_limit := t\<rparr>) ts kf = jwt_Parse wd ts kf"
  by (simp add: jwt_Parse_def split: option.splits sum.splits)

lemma verify_now_limit: "verify s (wd\<lparr>now_limit := t\<rparr>) email r = verify s wd email r"
  by (simp add: verify_def jwt_Parse_now_limit)

lemma assign_now_limit:
  "assign_server_fields s (wd\<lparr>now_limit := t\<rparr>) req decoded = assign_server_fields s wd req decoded"
  by (simp add: assign_server_fields_def verify_now_limit)

lemma store_now_limit:
  "postComment_store s (wd\<lparr>now_limit := t\<rparr>) w st parts path fp c
     = postComment_store s wd w st parts path fp c"
  by (simp add: postComment_store_def)

lemma file_now_limit:
  "postComment_file s (wd\<lparr>now_limit := t\<rparr>) req w st entry decoded
     = postComment_file s wd req w st entry decoded"
  by (simp add: postComment_file_def store_now_limit assign_now_limit Let_def split: sum.splits)

lemma postComment_now_limit:
  "TimeLimit (getSettings s) = 0 \<Longrightarrow>
   postComment s (wd\<lparr>now_limit := t\<rparr>) req = postComment s wd req"
  by (simp add: postComment_def file_now_limit Let_def split: sum.splits)

subsection \<open>The time limit\<close>

text \<open>
  Claim C5, as amended. For every submission from an address that is not banned, to
  a resolved thread whose age (\<open>time.Now().Sub(entryData.CreatedAt)\<close>) exceeds a
  non-zero time limit, the response has status 401 and the message that the thread
  is closed, and no call is made to the store. When the time limit is zero no
  response has status 401, and the response does not depend on the reading of the
  clock that the age is computed from.
\<close>

theorem closed_thread_is_rejected:
  "(RemoteAddr req \<notin> set (BannedIPs (getSettings s))
      \<and> entryData s (URL_Path req) = Inr entry
      \<and> TimeLimit (getSettings s) \<noteq> 0
      \<and> Time_Sub (now_limit wd) (CreatedAt entry) > TimeLimit (getSettings s)
     \<longrightarrow> w_status (response (postComment s wd req)) = Some 401
         \<and> w_body (response (postComment s wd req)) = [JSON_msg ''Thread is closed for new comments'']
         \<and> store_calls (postComment s wd req) = []
         \<and> panicked (postComment s wd req) = None)
   \<and> (TimeLimit (getSettings s) = 0
     \<longrightarrow> w_status (response (postComment s wd req)) \<noteq> Some 401
         \<and> postComment s (wd\<lparr>now_limit := t\<rparr>) req = postComment s wd req)"
proof (intro conjI impI)
  assume a: "RemoteAddr req \<notin> set (BannedIPs (getSettings s))
      \<and> entryData s (URL_Path req) = Inr entry
      \<and> TimeLimit (getSettings s) \<noteq> 0
      \<and> Time_Sub (now_limit wd) (CreatedAt entry) > TimeLimit (getSettings s)"
  then have ip: "\<not> range_BannedIPs (BannedIPs (getSettings s)) (RemoteAddr req)"
    by (simp add: range_BannedIPs_iff)
  from a have entry: "entryData s (URL_Path req) = Inr entry"
    and limit: "TimeLimit (getSettings s) \<noteq> 0"
    and age: "Time_Sub (now_limit wd) (CreatedAt entry) > TimeLimit (getSettings s)"
    by blast+
  note r = postComment_closed [OF ip entry limit age]
  show "w_status (response (postComment s wd req)) = Some 401"
    and "w_body (response (postComment s wd req)) = [JSON_msg ''Thread is closed for new comments'']"
    and "store_calls (postComment s wd req) = []"
    and "panicked (postComment s wd req) = None"
    by (simp_all add: r)
next
  assume z: "TimeLimit (getSettings s) = 0"
  then show "w_status (response (postComment s wd req)) \<noteq> Some 401"
    using postComment_status_401 [of s wd req] by blast
  from z show "postComment s (wd\<lparr>now_limit := t\<rparr>) req = postComment s wd req"
    by (rule postComment_now_limit)
qed

theorem closed_thread_is_rejected_witness:
  "RemoteAddr ex_request \<notin> set (BannedIPs (getSettings (ex_server\<lparr>getSettings := ex_settings\<lparr>TimeLimit := 3000\<rparr>\<rparr>)))
   \<and> entryData (ex_server\<lparr>getSettings := ex_settings\<lparr>TimeLimit := 3000\<rparr>\<rparr>) (URL_Path ex_request)
       = Inr \<lparr>Thread = ''2016-09-hello-world'', CreatedAt = 1000\<rparr>
   \<and> Time_Sub (now_limit ex_world) 1000 = 4000
   \<and> w_status (response (postComment (ex_server\<lparr>getSettings := ex_settings\<lparr>TimeLimit := 3000\<rparr>\<rparr>)
         ex_world ex_request)) = Some 401
   \<and> TimeLimit (getSettings ex_server) = 0
   \<and> w_status (response (postComment ex_server ex_world ex_request)) \<noteq> Some 401"
proof -
  let ?s = "ex_server\<lparr>getSettings := ex_settings\<lparr>TimeLimit := 3000\<rparr>\<rparr>"
  let ?entry = "\<lparr>Thread = ''2016-09-hello-world'', CreatedAt = 1000\<rparr>"
  have 1: "RemoteAddr ex_request \<notin> set (BannedIPs (getSettings ?s))"
    by code_simp
  have 2: "entryData ?s (URL_Path ex_request) = Inr ?entry"
    by code_simp
  have 3: "TimeLimit (getSettings ?s) \<noteq> 0"
    by code_simp
  have 4: "Time_Sub (now_limit ex_world) (CreatedAt ?entry) > TimeLimit (getSettings ?s)"
    by code_simp
  have 5: "Time_Sub (now_limit ex_world) 1000 = 4000"
    by code_simp
  have 6: "TimeLimit (getSettings ex_server) = 0"
    by code_simp
  from closed_thread_is_rejected [where req = ex_request and s = ?s and entry = ?entry and wd = ex_world] 1 2 3 4
  have 7: "w_status (response (postComment ?s ex_world ex_request)) = Some 401"
    by blast
  from closed_thread_is_rejected [where req = ex_request and s = ex_server and wd = ex_world] 6
  have 8: "w_status (response (postComment ex_server ex_world ex_request)) \<noteq> Some 401"
    by blast
  from 1 2 5 7 6 8 show ?thesis
    by (intro conjI)
qed

text \<open>
  Claim C5 as stated fails for a banned address: the check of the address comes
  before the time limit, so a submission from a banned address to a closed thread
  gets the silent rejection with status 200, not the error 401.
\<close>

theorem closed_thread_banned_address_counterexample:
  "TimeLimit (getSettings (ex_server\<lparr>getSettings := ex_settings\<lparr>TimeLimit := 3000\<rparr>\<rparr>)) = 3000
   \<and> entryData (ex_server\<lparr>getSettings := ex_settings\<lparr>TimeLimit := 3000\<rparr>\<rparr>)
        (URL_Path (ex_request\<lparr>RemoteAddr := ''203.0.113.9''\<rparr>))
       = Inr \<lparr>Thread = ''2016-09-hello-world'', CreatedAt = 1000\<rparr>
   \<and> Time_Sub (now_limit ex_world) 1000 = 4000
   \<and> postComment (ex_server\<lparr>getSettings := ex_settings\<lparr>TimeLimit := 3000\<rparr>\<rparr>) ex_world
        (ex_request\<lparr>RemoteAddr := ''203.0.113.9''\<rparr>)
       = \<lparr>response = \<lparr>w_header = [(''Content-Type'', [''application/json'']), (''X-Banned'', [''IP-Banned''])],
                       w_status = Some 200, w_body = [Text (''{}'' @ [newline])]\<rparr>,
          store_calls = [], panicked = None\<rparr>"
  by code_simp

subsection \<open>The thread identifier\<close>

text \<open>
  Claim C7. When the thread identifier has no match of \<open>threadRegexp\<close>,
  \<open>FindStringSubmatch\<close> returns nil and line 101 indexes it: the handler panics
  with an index out of range. No status and no body are written, so the submitter
  gets no malformed-thread-ID error; no call is made to the store.
\<close>

theorem unmatched_thread_panics:
  assumes "passes_checks s wd req entry decoded"
    and "threadRegexp_FindStringSubmatch (Thread entry) = []"
  shows "panicked (postComment s wd req) = Some IndexOutOfRange
         \<and> w_status (response (postComment s wd req)) = None
         \<and> w_body (response (postComment s wd req)) = []
         \<and> store_calls (postComment s wd req) = []"
  using assms
  by (simp add: postComment_passes postComment_file_unmatched panics_def new_writer_def)

theorem unmatched_thread_panics_witness:
  "passes_checks ex_server ex_world (ex_request\<lparr>URL_Path := ''/about''\<rparr>)
     \<lparr>Thread = ''about'', CreatedAt = 1000\<rparr>
     \<lparr>Author = ''Ann'', Email = ''ann@example.org'', URL = [], Body = ''Nice post!'',
      IP = [], ID = [], Date = [], Verified = False\<rparr>
   \<and> threadRegexp_FindStringSubmatch ''about'' = []
   \<and> postComment ex_server ex_world (ex_request\<lparr>URL_Path := ''/about''\<rparr>)
       = \<lparr>response = \<lparr>w_header = [(''Content-Type'', [''application/json''])],
                       w_status = None, w_body = []\<rparr>,
          store_calls = [], panicked = Some IndexOutOfRange\<rparr>"
proof -
  let ?req = "ex_request\<lparr>URL_Path := ''/about''\<rparr>"
  let ?entry = "\<lparr>Thread = ''about'', CreatedAt = 1000\<rparr>"
  let ?decoded = "\<lparr>Author = ''Ann'', Email = ''ann@example.org'', URL = [], Body = ''Nice post!'',
      IP = [], ID = [], Date = [], Verified = False\<rparr>"
  have 1: "passes_checks ex_server ex_world ?req ?entry ?decoded"
    by code_simp
  have 2: "threadRegexp_FindStringSubmatch (Thread ?entry) = []"
    by code_simp
  have 3: "threadRegexp_FindStringSubmatch ''about'' = []"
    by code_simp
  have 4: "postComment ex_server ex_world ?req
       = \<lparr>response = \<lparr>w_header = [(''Content-Type'', [''application/json''])],
                       w_status = None, w_body = []\<rparr>,
          store_calls = [], panicked = Some IndexOutOfRange\<rparr>"
    by code_simp
  from unmatched_thread_panics [OF 1 2] 1 3 4 show ?thesis
    by (intro conjI)
qed

subsection \<open>The two paths to the store\<close>

lemma postComment_to_store:
  assumes "passes_checks s wd req entry decoded"
    and "threadRegexp_FindStringSubmatch (Thread entry) \<noteq> []"
    and "Split (API_Repository (config s)) ''/'' = owner # repo # rest"
  shows "\<exists>pathname.
     postComment s wd req =
       postComment_store s wd
         \<lparr>w_header = [(''Content-Type'', [''application/json''])], w_status = None, w_body = []\<rparr>
         (getSettings s) (owner # repo # rest) pathname
         (ToLower (TrimSpace (Body decoded))) (assign_server_fields s wd req decoded)"
proof -
  from assms(2) FindStringSubmatch_cases [of "Thread entry"]
  obtain m0 m1 m2 m3 where m: "threadRegexp_FindStringSubmatch (Thread entry) = [m0, m1, m2, m3]"
    by blast
  have "postComment s wd req =
       postComment_store s wd
         \<lparr>w_header = [(''Content-Type'', [''application/json''])], w_status = None, w_body = []\<rparr>
         (getSettings s) (owner # repo # rest) (pathname_of s wd [m0, m1, m2, m3] (Body decoded))
         (ToLower (TrimSpace (Body decoded))) (assign_server_fields s wd req decoded)"
    by (simp add: postComment_passes [OF assms(1)] postComment_file_matched [OF m] assms(3)
        new_writer_def Header_Set_def)
  then show ?thesis ..
qed

text \<open>
  Claim C1, as amended. For every validated submission (it passes the checks, its
  thread identifier has a match, and the repository of the configuration has an
  owner and a name): when the settings require approval or the comment is
  suspicious, the calls to the store are \<open>GetBranch\<close>, \<open>CreateRef\<close>, \<open>CreateFile\<close>
  (on the branch of the comment) and \<open>PullRequests.Create\<close>, in that order and each
  at most once, up to and including the first one that fails: all four when the
  first three succeed. Otherwise the only call is one \<open>CreateFile\<close> on \<open>master\<close>.
\<close>

theorem router_calls:
  assumes "passes_checks s wd req entry decoded"
    and "threadRegexp_FindStringSubmatch (Thread entry) \<noteq> []"
    and "Split (API_Repository (config s)) ''/'' = owner # repo # rest"
  shows "\<exists>pathname message sha base.
     (let comment = assign_server_fields s wd req decoded;
          branch = ''comment-'' @ ID comment;
          reviewed = [GetBranch owner repo ''master'',
                      CreateRef owner repo (''refs/heads/'' @ branch) sha,
                      CreateFile owner repo pathname message comment branch,
                      PullRequests_Create owner repo message branch base]
      in if RequireApproval (getSettings s) \<or> IsSuspicious wd comment
         then store_calls (postComment s wd req) =
                take (if fst (GetBranch_reply (client s)) = None
                         \<or> snd (GetBranch_reply (client s)) \<noteq> None then 1
                      else if CreateRef_reply (client s) \<noteq> None then 2
                      else if CreateFile_reply (client s) \<noteq> None then 3
                      else 4) reviewed
         else store_calls (postComment s wd req) =
                [CreateFile owner repo pathname message comment ''master''])"
proof -
  let ?c = "assign_server_fields s wd req decoded"
  let ?w = "\<lparr>w_header = [(''Content-Type'', [''application/json''])], w_status = None, w_body = []\<rparr>"
  let ?fp = "ToLower (TrimSpace (Body decoded))"
  from postComment_to_store [OF assms] obtain pathname where
    p: "postComment s wd req = postComment_store s wd ?w (getSettings s) (owner # repo # rest) pathname ?fp ?c"
    by blast
  show ?thesis
  proof (cases "RequireApproval (getSettings s) \<or> IsSuspicious wd ?c")
    case False
    from store_direct [OF False] p
    have "store_calls (postComment s wd req) = [CreateFile owner repo pathname ?fp ?c ''master'']"
      by (simp add: returns_def)
    with False show ?thesis
      by (auto simp add: Let_def)
  next
    case True
    show ?thesis
    proof (cases "fst (GetBranch_reply (client s))")
      case None
      from store_reviewed_nil_branch [OF True None] p
      have "store_calls (postComment s wd req) = [GetBranch owner repo ''master'']"
        by (simp add: panics_def)
      with True None show ?thesis
        by (simp add: Let_def)
    next
      case (Some m)
      from store_reviewed_branch [OF True Some] p
      have "store_calls (postComment s wd req) =
              take (if snd (GetBranch_reply (client s)) \<noteq> None then 1
                    else if CreateRef_reply (client s) \<noteq> None then 2
                    else if CreateFile_reply (client s) \<noteq> None then 3
                    else 4)
                [GetBranch owner repo ''master'',
                 CreateRef owner repo (''refs/heads/'' @ ''comment-'' @ ID ?c) (GetSHA (Commit m)),
                 CreateFile owner repo pathname ?fp ?c (''comment-'' @ ID ?c),
                 PullRequests_Create owner repo ?fp (''comment-'' @ ID ?c) (Name m)]"
        by (simp add: Let_def returns_def split: option.splits)
      with True Some show ?thesis
        by (simp only: Let_def if_True option.simps simp_thms) blast
    qed
  qed
qed

theorem router_calls_witness:
  "passes_checks (ex_server\<lparr>getSettings := ex_settings\<lparr>RequireApproval := True\<rparr>\<rparr>) ex_world ex_request
     \<lparr>Thread = ''2016-09-hello-world'', CreatedAt = 1000\<rparr>
     \<lparr>Author = ''Ann'', Email = ''ann@example.org'', URL = [], Body = ''Nice post!'',
      IP = [], ID = [], Date = [], Verified = False\<rparr>
   \<and> threadRegexp_FindStringSubmatch ''2016-09-hello-world''
       = [''2016-09-hello-world'', ''2016'', ''09'', ''hello-world'']
   \<and> Split ''netlify/comments'' ''/'' = [''netlify'', ''comments'']
   \<and> map (\<lambda>c. case c of GetBranch a b c \<Rightarrow> ''GetBranch'' | CreateRef a b c d \<Rightarrow> ''CreateRef''
                 | CreateFile a b c d e f \<Rightarrow> ''CreateFile'' @ '' on '' @ f
                 | PullRequests_Create a b c d e \<Rightarrow> ''PullRequests.Create'')
        (store_calls (postComment (ex_server\<lparr>getSettings := ex_settings\<lparr>RequireApproval := True\<rparr>\<rparr>)
           ex_world ex_request))
       = [''GetBranch'', ''CreateRef'', ''CreateFile on comment-5002'', ''PullRequests.Create'']
   \<and> map (\<lambda>c. case c of GetBranch a b c \<Rightarrow> ''GetBranch'' | CreateRef a b c d \<Rightarrow> ''CreateRef''
                 | CreateFile a b c d e f \<Rightarrow> ''CreateFile'' @ '' on '' @ f
                 | PullRequests_Create a b c d e \<Rightarrow> ''PullRequests.Create'')
        (store_calls (postComment ex_server ex_world ex_request))
       = [''CreateFile on master'']"
proof -
  let ?s = "ex_server\<lparr>getSettings := ex_settings\<lparr>RequireApproval := True\<rparr>\<rparr>"
  let ?entry = "\<lparr>Thread = ''2016-09-hello-world'', CreatedAt = 1000\<rparr>"
  let ?decoded = "\<lparr>Author = ''Ann'', Email = ''ann@example.org'', URL = [], Body = ''Nice post!'',
      IP = [], ID = [], Date = [], Verified = False\<rparr>"
  have 1: "passes_checks ?s ex_world ex_request ?entry ?decoded"
    by code_simp
  have 2: "threadRegexp_FindStringSubmatch (Thread ?entry) \<noteq> []"
    by code_simp
  have 3: "Split (API_Repository (config ?s)) ''/'' = ''netlify'' # ''comments'' # []"
    by code_simp
  have 4: "threadRegexp_FindStringSubmatch ''2016-09-hello-world''
       = [''2016-09-hello-world'', ''2016'', ''09'', ''hello-world'']"
    by code_simp
  have 5: "Split ''netlify/comments'' ''/'' = [''netlify'', ''comments'']"
    by code_simp
  have 6: "map (\<lambda>c. case c of GetBranch a b c \<Rightarrow> ''GetBranch'' | CreateRef a b c d \<Rightarrow> ''CreateRef''
                 | CreateFile a b c d e f \<Rightarrow> ''CreateFile'' @ '' on '' @ f
                 | PullRequests_Create a b c d e \<Rightarrow> ''PullRequests.Create'')
        (store_calls (postComment ?s ex_world ex_request))
       = [''GetBranch'', ''CreateRef'', ''CreateFile on comment-5002'', ''PullRequests.Create'']"
    by code_simp
  have 7: "map (\<lambda>c. case c of GetBranch a b c \<Rightarrow> ''GetBranch'' | CreateRef a b c d \<Rightarrow> ''CreateRef''
                 | CreateFile a b c d e f \<Rightarrow> ''CreateFile'' @ '' on '' @ f
                 | PullRequests_Create a b c d e \<Rightarrow> ''PullRequests.Create'')
        (store_calls (postComment ex_server ex_world ex_request))
       = [''CreateFile on master'']"
    by code_simp
  from router_calls [OF 1 2 3] 1 4 5 6 7 show ?thesis
    by (intro conjI)
qed

text \<open>
  Claim C1 as stated fails when a call of the reviewed path fails: with approval
  required and \<open>CreateRef\<close> answering with an error, the handler returns after the
  second call, and neither \<open>CreateFile\<close> nor \<open>PullRequests.Create\<close> is called.
\<close>

theorem router_calls_counterexample:
  "passes_checks
     (ex_server\<lparr>getSettings := ex_settings\<lparr>RequireApproval := True\<rparr>,
                 client := ex_client\<lparr>CreateRef_reply := Some ''422 Reference already exists''\<rparr>\<rparr>)
     ex_world ex_request
     \<lparr>Thread = ''2016-09-hello-world'', CreatedAt = 1000\<rparr>
     \<lparr>Author = ''Ann'', Email = ''ann@example.org'', URL = [], Body = ''Nice post!'',
      IP = [], ID = [], Date = [], Verified = False\<rparr>
   \<and> RequireApproval (getSettings
        (ex_server\<lparr>getSettings := ex_settings\<lparr>RequireApproval := True\<rparr>,
                    client := ex_client\<lparr>CreateRef_reply := Some ''422 Reference already exists''\<rparr>\<rparr>))
   \<and> postComment
        (ex_server\<lparr>getSettings := ex_settings\<lparr>RequireApproval := True\<rparr>,
                    client := ex_client\<lparr>CreateRef_reply := Some ''422 Reference already exists''\<rparr>\<rparr>)
        ex_world ex_request
       = \<lparr>response = \<lparr>w_header = [(''Content-Type'', [''application/json''])], w_status = Some 500,
                       w_body = [JSON_msg ''Failed to create comment branch: 422 Reference already exists'']\<rparr>,
          store_calls = [GetBranch ''netlify'' ''comments'' ''master'',
                         CreateRef ''netlify'' ''comments'' ''refs/heads/comment-5002'' ''4f2a''],
          panicked = None\<rparr>"
  by code_simp

text \<open>
  Claim C2. When \<open>GetBranch\<close> fails, the library returns a nil branch with the
  error. Line 117 reads \<open>master.Commit\<close> before line 119 looks at the error, so the
  handler panics with a nil dereference: no status 500 and no JSON error is
  written. No further call is made to the store.
\<close>

theorem branch_head_failure_panics:
  assumes "passes_checks s wd req entry decoded"
    and "threadRegexp_FindStringSubmatch (Thread entry) \<noteq> []"
    and "Split (API_Repository (config s)) ''/'' = owner # repo # rest"
    and "RequireApproval (getSettings s) \<or> IsSuspicious wd (assign_server_fields s wd req decoded)"
    and "GetBranch_reply (client s) = (None, Some e)"
  shows "panicked (postComment s wd req) = Some NilDereference
         \<and> w_status (response (postComment s wd req)) = None
         \<and> w_body (response (postComment s wd req)) = []
         \<and> store_calls (postComment s wd req) = [GetBranch owner repo ''master'']"
proof -
  from postComment_to_store [OF assms(1,2,3)] obtain pathname where
    "postComment s wd req = postComment_store s wd
       \<lparr>w_header = [(''Content-Type'', [''application/json''])], w_status = None, w_body = []\<rparr>
       (getSettings s) (owner # repo # rest) pathname
       (ToLower (TrimSpace (Body decoded))) (assign_server_fields s wd req decoded)"
    by blast
  with store_reviewed_nil_branch [where s = s, OF assms(4)] assms(5) show ?thesis
    by (simp add: panics_def)
qed

theorem branch_head_failure_panics_witness:
  "passes_checks
     (ex_server\<lparr>getSettings := ex_settings\<lparr>RequireApproval := True\<rparr>,
                 client := ex_client\<lparr>GetBranch_reply := (None, Some ''404 Not Found'')\<rparr>\<rparr>)
     ex_world ex_request
     \<lparr>Thread = ''2016-09-hello-world'', CreatedAt = 1000\<rparr>
     \<lparr>Author = ''Ann'', Email = ''ann@example.org'', URL = [], Body = ''Nice post!'',
      IP = [], ID = [], Date = [], Verified = False\<rparr>
   \<and> postComment
        (ex_server\<lparr>getSettings := ex_settings\<lparr>RequireApproval := True\<rparr>,
                    client := ex_client\<lparr>GetBranch_reply := (None, Some ''404 Not Found'')\<rparr>\<rparr>)
        ex_world ex_request
       = \<lparr>response = \<lparr>w_header = [(''Content-Type'', [''application/json''])], w_status = None,
                       w_body = []\<rparr>,
          store_calls = [GetBranch ''netlify'' ''comments'' ''master''],
          panicked = Some NilDereference\<rparr>"
proof -
  let ?s = "ex_server\<lparr>getSettings := ex_settings\<lparr>RequireApproval := True\<rparr>,
                 client := ex_client\<lparr>GetBranch_reply := (None, Some ''404 Not Found'')\<rparr>\<rparr>"
  let ?entry = "\<lparr>Thread = ''2016-09-hello-world'', CreatedAt = 1000\<rparr>"
  let ?decoded = "\<lparr>Author = ''Ann'', Email = ''ann@example.org'', URL = [], Body = ''Nice post!'',
      IP = [], ID = [], Date = [], Verified = False\<rparr>"
  have 1: "passes_checks ?s ex_world ex_request ?entry ?decoded"
    by code_simp
  have 2: "threadRegexp_FindStringSubmatch (Thread ?entry) \<noteq> []"
    by code_simp
  have 3: "Split (API_Repository (config ?s)) ''/'' = ''netlify'' # ''comments'' # []"
    by code_simp
  have 4: "RequireApproval (getSettings ?s) \<or> IsSuspicious ex_world (assign_server_fields ?s ex_world ex_request ?decoded)"
    by code_simp
  have 5: "GetBranch_reply (client ?s) = (None, Some ''404 Not Found'')"
    by code_simp
  have 6: "postComment ?s ex_world ex_request
       = \<lparr>response = \<lparr>w_header = [(''Content-Type'', [''application/json''])], w_status = None,
                       w_body = []\<rparr>,
          store_calls = [GetBranch ''netlify'' ''comments'' ''master''],
          panicked = Some NilDereference\<rparr>"
    by code_simp
  from branch_head_failure_panics [OF 1 2 3 4 5] 1 6 show ?thesis
    by (intro conjI)
qed

text \<open>
  The three later steps do what claim C2 says: a failure is answered with status
  500 and a message that names the step, and the steps after it are not called.
\<close>

lemma later_step_failures:
  assumes "passes_checks s wd req entry decoded"
    and "threadRegexp_FindStringSubmatch (Thread entry) \<noteq> []"
    and "Split (API_Repository (config s)) ''/'' = owner # repo # rest"
    and "RequireApproval (getSettings s) \<or> IsSuspicious wd (assign_server_fields s wd req decoded)"
    and "GetBranch_reply (client s) = (Some m, None)"
  shows "CreateRef_reply (client s) = Some e \<Longrightarrow>
           w_status (response (postComment s wd req)) = Some 500
           \<and> w_body (response (postComment s wd req)) = [JSON_msg (''Failed to create comment branch: '' @ e)]
           \<and> length (store_calls (postComment s wd req)) = 2"
    and "CreateRef_reply (client s) = None \<Longrightarrow> CreateFile_reply (client s) = Some e \<Longrightarrow>
           w_status (response (postComment s wd req)) = Some 500
           \<and> w_body (response (postComment s wd req)) = [JSON_msg (''Failed to write comment: '' @ e)]
           \<and> length (store_calls (postComment s wd req)) = 3"
    and "CreateRef_reply (client s) = None \<Longrightarrow> CreateFile_reply (client s) = None \<Longrightarrow>
         PullRequests_Create_reply (client s) = Some e \<Longrightarrow>
           w_status (response (postComment s wd req)) = Some 500
           \<and> w_body (response (postComment s wd req)) = [JSON_msg (''Failed to create PR: '' @ e)]
           \<and> length (store_calls (postComment s wd req)) = 4"
proof -
  from postComment_to_store [OF assms(1,2,3)] obtain pathname where
    p: "postComment s wd req = postComment_store s wd
       \<lparr>w_header = [(''Content-Type'', [''application/json''])], w_status = None, w_body = []\<rparr>
       (getSettings s) (owner # repo # rest) pathname
       (ToLower (TrimSpace (Body decoded))) (assign_server_fields s wd req decoded)"
    by blast
  have m: "fst (GetBranch_reply (client s)) = Some m"
    by (simp add: assms(5))
  note r = store_reviewed_branch [where s = s, OF assms(4) m]
  show "CreateRef_reply (client s) = Some e \<Longrightarrow>
           w_status (response (postComment s wd req)) = Some 500
           \<and> w_body (response (postComment s wd req)) = [JSON_msg (''Failed to create comment branch: '' @ e)]
           \<and> length (store_calls (postComment s wd req)) = 2"
    by (simp add: p r assms(5) Let_def returns_def jsonError_def Write_def WriteHeader_def)
  show "CreateRef_reply (client s) = None \<Longrightarrow> CreateFile_reply (client s) = Some e \<Longrightarrow>
           w_status (response (postComment s wd req)) = Some 500
           \<and> w_body (response (postComment s wd req)) = [JSON_msg (''Failed to write comment: '' @ e)]
           \<and> length (store_calls (postComment s wd req)) = 3"
    by (simp add: p r assms(5) Let_def returns_def jsonError_def Write_def WriteHeader_def)
  show "CreateRef_reply (client s) = None \<Longrightarrow> CreateFile_reply (client s) = None \<Longrightarrow>
         PullRequests_Create_reply (client s) = Some e \<Longrightarrow>
           w_status (response (postComment s wd req)) = Some 500
           \<and> w_body (response (postComment s wd req)) = [JSON_msg (''Failed to create PR: '' @ e)]
           \<and> length (store_calls (postComment s wd req)) = 4"
    by (simp add: p r assms(5) Let_def returns_def jsonError_def Write_def WriteHeader_def)
qed

subsection \<open>The verified flag\<close>













lemma Verified_assign [simp]:
  "Verified (assign_server_fields s wd req decoded) = verify s wd (Email decoded) req"
  by (simp add: assign_server_fields_def)





subsection \<open>The identity check\<close>

lemma bearer_match:
  "bearerRegexp_FindStringSubmatch h = [] \<or>
   (\<exists>tok. bearerRegexp_FindStringSubmatch h = [h, tok]
          \<and> (h = ''Bearer '' @ tok \<or> h = ''bearer '' @ tok)
          \<and> tok \<noteq> [] \<and> list_all (\<lambda>d. \<not> isReSpace d) tok)"
proof (cases h)
  case Nil
  then show ?thesis
    by (simp add: bearerRegexp_FindStringSubmatch_def)
next
  case (Cons c rest)
  show ?thesis
  proof (cases "(c = CHR ''B'' \<or> c = CHR ''b'') \<and> take 6 rest = ''earer '' \<and> drop 6 rest \<noteq> []
                 \<and> list_all (\<lambda>d. \<not> isReSpace d) (drop 6 rest)")
    case False
    with Cons show ?thesis
      by (simp add: bearerRegexp_FindStringSubmatch_def)
  next
    case True
    then have "rest = ''earer '' @ drop 6 rest"
      by (metis append_take_drop_id)
    with True Cons have "h = ''Bearer '' @ drop 6 rest \<or> h = ''bearer '' @ drop 6 rest"
      by auto
    moreover from True Cons have "bearerRegexp_FindStringSubmatch h = [h, drop 6 rest]"
      by (simp add: bearerRegexp_FindStringSubmatch_def)
    ultimately show ?thesis
      using True by blast
  qed
qed

lemma verify_iff:
  "verify s wd email r \<longleftrightarrow>
     (\<exists>tok token.
        bearerRegexp_FindStringSubmatch (Header_Get (Header r) ''Authorization'')
          = [Header_Get (Header r) ''Authorization'', tok]
        \<and> jwt_decode wd tok = Some token
        \<and> Method_Alg token = ''HS256''
        \<and> jwt_claims_valid wd token
        \<and> jwt_signature_ok wd tok (JWT_Secret (config s))
        \<and> map_of (Claims token) ''email'' = Some (claim_string email))"
proof -
  let ?h = "Header_Get (Header r) ''Authorization''"
  from bearer_match [of ?h] show ?thesis
  proof
    assume none: "bearerRegexp_FindStringSubmatch ?h = []"
    then show ?thesis
      by (simp add: verify_def Let_def)
  next
    assume "\<exists>tok. bearerRegexp_FindStringSubmatch ?h = [?h, tok]
          \<and> (?h = ''Bearer '' @ tok \<or> ?h = ''bearer '' @ tok)
          \<and> tok \<noteq> [] \<and> list_all (\<lambda>d. \<not> isReSpace d) tok"
    then obtain tok where m: "bearerRegexp_FindStringSubmatch ?h = [?h, tok]"
      and h: "?h = ''Bearer '' @ tok \<or> ?h = ''bearer '' @ tok"
      by blast
    from h have ne: "?h \<noteq> []"
      by auto
    show ?thesis
      using ne
      by (auto simp add: verify_def Let_def m jwt_Parse_def keyFunc_def
          split: option.splits sum.splits if_splits)
  qed
qed

lemma ToLower_Bearer: "ToLower ''Bearer'' = ''bearer'' \<and> ToLower ''bearer'' = ''bearer''"
  by code_simp

lemma verify_bearer_token:
  assumes "verify s wd email r"
  shows "\<exists>tok token.
           (Header_Get (Header r) ''Authorization'' = ''Bearer '' @ tok
            \<or> Header_Get (Header r) ''Authorization'' = ''bearer '' @ tok)
           \<and> tok \<noteq> []
           \<and> jwt_decode wd tok = Some token
           \<and> Method_Alg token = ''HS256''
           \<and> jwt_signature_ok wd tok (JWT_Secret (config s))
           \<and> map_of (Claims token) ''email'' = Some (claim_string email)"
proof -
  let ?h = "Header_Get (Header r) ''Authorization''"
  from assms verify_iff [of s wd email r] obtain tok token where
    m: "bearerRegexp_FindStringSubmatch ?h = [?h, tok]"
    and t: "jwt_decode wd tok = Some token" "Method_Alg token = ''HS256''"
      "jwt_signature_ok wd tok (JWT_Secret (config s))"
      "map_of (Claims token) ''email'' = Some (claim_string email)"
    by blast
  from bearer_match [of ?h] m have "(?h = ''Bearer '' @ tok \<or> ?h = ''bearer '' @ tok) \<and> tok \<noteq> []"
    by auto
  with t show ?thesis
    by blast
qed

text \<open>
  Claim C6. \<open>verify\<close> returns true only if the Authorization header is a bearer
  scheme (equal to \<open>bearer\<close> when lower-cased), a space and a token, the token
  decodes, its algorithm is HS256, its signature is valid for the secret of the
  configuration, and its \<open>email\<close> claim is the string \<open>email\<close>. It returns false
  for a missing header, for a header with no bearer scheme, for an invalid
  signature, for another algorithm, and for an \<open>email\<close> claim that differs.
\<close>

theorem verify_true_only_if:
  "(verify s wd email r \<longrightarrow>
      (\<exists>scheme tokenString token.
          Header_Get (Header r) ''Authorization'' = scheme @ '' '' @ tokenString
          \<and> ToLower scheme = ''bearer''
          \<and> tokenString \<noteq> []
          \<and> jwt_decode wd tokenString = Some token
          \<and> Method_Alg token = ''HS256''
          \<and> jwt_signature_ok wd tokenString (JWT_Secret (config s))
          \<and> map_of (Claims token) ''email'' = Some (claim_string email)))
   \<and> (Header_Get (Header r) ''Authorization'' = [] \<longrightarrow> \<not> verify s wd email r)
   \<and> ((\<forall>scheme tokenString. Header_Get (Header r) ''Authorization'' = scheme @ '' '' @ tokenString
          \<longrightarrow> ToLower scheme \<noteq> ''bearer'')
        \<longrightarrow> \<not> verify s wd email r)
   \<and> (\<forall>tokenString.
          Header_Get (Header r) ''Authorization'' = ''Bearer '' @ tokenString
          \<and> \<not> jwt_signature_ok wd tokenString (JWT_Secret (config s))
        \<longrightarrow> \<not> verify s wd email r)
   \<and> (\<forall>tokenString token.
          Header_Get (Header r) ''Authorization'' = ''Bearer '' @ tokenString
          \<and> jwt_decode wd tokenString = Some token \<and> Method_Alg token \<noteq> ''HS256''
        \<longrightarrow> \<not> verify s wd email r)
   \<and> (\<forall>tokenString token.
          Header_Get (Header r) ''Authorization'' = ''Bearer '' @ tokenString
          \<and> jwt_decode wd tokenString = Some token
          \<and> map_of (Claims token) ''email'' \<noteq> Some (claim_string email)
        \<longrightarrow> \<not> verify s wd email r)"
proof -
  let ?h = "Header_Get (Header r) ''Authorization''"
  have only_if: "\<exists>scheme tokenString token.
          ?h = scheme @ '' '' @ tokenString
          \<and> ToLower scheme = ''bearer''
          \<and> tokenString \<noteq> []
          \<and> jwt_decode wd tokenString = Some token
          \<and> Method_Alg token = ''HS256''
          \<and> jwt_signature_ok wd tokenString (JWT_Secret (config s))
          \<and> map_of (Claims token) ''email'' = Some (claim_string email)"
    if v: "verify s wd email r"
  proof -
    from verify_bearer_token [OF v] obtain tok token where
      h: "?h = ''Bearer '' @ tok \<or> ?h = ''bearer '' @ tok"
      and t: "tok \<noteq> []" "jwt_decode wd tok = Some token" "Method_Alg token = ''HS256''"
        "jwt_signature_ok wd tok (JWT_Secret (config s))"
        "map_of (Claims token) ''email'' = Some (claim_string email)"
      by blast
    from h have "?h = ''Bearer'' @ '' '' @ tok \<or> ?h = ''bearer'' @ '' '' @ tok"
      by simp
    with ToLower_Bearer obtain scheme where "?h = scheme @ '' '' @ tok" "ToLower scheme = ''bearer''"
      by blast
    with t show ?thesis
      by blast
  qed
  have same_token: "tok = tokenString \<and> jwt_decode wd tokenString = Some token
      \<and> Method_Alg token = ''HS256''
      \<and> jwt_signature_ok wd tokenString (JWT_Secret (config s))
      \<and> map_of (Claims token) ''email'' = Some (claim_string email)"
    if h: "?h = ''Bearer '' @ tokenString"
      and b: "?h = ''Bearer '' @ tok \<or> ?h = ''bearer '' @ tok"
      and t: "jwt_decode wd tok = Some token" "Method_Alg token = ''HS256''"
        "jwt_signature_ok wd tok (JWT_Secret (config s))"
        "map_of (Claims token) ''email'' = Some (claim_string email)"
    for tok tokenString token
  proof -
    from h b have "tok = tokenString"
      by auto
    with t show ?thesis
      by simp
  qed
  have no_header: "\<not> verify s wd email r" if "?h = []"
    using that by (simp add: verify_def)
  have no_scheme: "\<not> verify s wd email r"
    if "\<forall>scheme tokenString. ?h = scheme @ '' '' @ tokenString \<longrightarrow> ToLower scheme \<noteq> ''bearer''"
    using that only_if by blast
  have bad_signature: "\<not> verify s wd email r"
    if "?h = ''Bearer '' @ tokenString \<and> \<not> jwt_signature_ok wd tokenString (JWT_Secret (config s))"
    for tokenString
  proof
    assume "verify s wd email r"
    from verify_bearer_token [OF this] that same_token show False
      by blast
  qed
  have bad_alg: "\<not> verify s wd email r"
    if "?h = ''Bearer '' @ tokenString \<and> jwt_decode wd tokenString = Some token
        \<and> Method_Alg token \<noteq> ''HS256''"
    for tokenString token
  proof
    assume "verify s wd email r"
    from verify_bearer_token [OF this] that same_token show False
      by (metis option.inject)
  qed
  have bad_email: "\<not> verify s wd email r"
    if "?h = ''Bearer '' @ tokenString \<and> jwt_decode wd tokenString = Some token
        \<and> map_of (Claims token) ''email'' \<noteq> Some (claim_string email)"
    for tokenString token
  proof
    assume "verify s wd email r"
    from verify_bearer_token [OF this] that same_token show False
      by (metis option.inject)
  qed
  from only_if no_header no_scheme bad_signature bad_alg bad_email show ?thesis
    by blast
qed

theorem verify_true_only_if_witness:
  "verify ex_server ex_world ''ann@example.org'' ex_request
   \<and> Header_Get (Header ex_request) ''Authorization'' = ''Bearer'' @ '' '' @ ''good.token''
   \<and> ToLower ''Bearer'' = ''bearer''
   \<and> jwt_decode ex_world ''good.token''
       = Some \<lparr>Method_Alg = ''HS256'', Claims = [(''email'', claim_string ''ann@example.org'')],
                Valid = False\<rparr>
   \<and> jwt_signature_ok ex_world ''good.token'' (JWT_Secret (config ex_server))
   \<and> \<not> verify ex_server ex_world ''bob@example.org'' ex_request
   \<and> \<not> verify ex_server ex_world ''ann@example.org'' (ex_request\<lparr>Header := []\<rparr>)"
proof -
  have 1: "verify ex_server ex_world ''ann@example.org'' ex_request"
    by code_simp
  have 2: "Header_Get (Header ex_request) ''Authorization'' = ''Bearer'' @ '' '' @ ''good.token''"
    by code_simp
  have 3: "ToLower ''Bearer'' = ''bearer''"
    by code_simp
  have 4: "jwt_decode ex_world ''good.token''
       = Some \<lparr>Method_Alg = ''HS256'', Claims = [(''email'', claim_string ''ann@example.org'')],
                Valid = False\<rparr>"
    by code_simp
  have 5: "jwt_signature_ok ex_world ''good.token'' (JWT_Secret (config ex_server))"
    by code_simp
  have 6: "Header_Get (Header ex_request) ''Authorization'' = ''Bearer '' @ ''good.token''
           \<and> jwt_decode ex_world ''good.token''
               = Some \<lparr>Method_Alg = ''HS256'', Claims = [(''email'', claim_string ''ann@example.org'')],
                        Valid = False\<rparr>
           \<and> map_of (Claims \<lparr>Method_Alg = ''HS256'', Claims = [(''email'', claim_string ''ann@example.org'')],
                        Valid = False\<rparr>) ''email'' \<noteq> Some (claim_string ''bob@example.org'')"
    by code_simp
  have 7: "Header_Get (Header (ex_request\<lparr>Header := []\<rparr>)) ''Authorization'' = []"
    by code_simp
  from verify_true_only_if [of ex_server ex_world "''bob@example.org''" ex_request] 6
  have 8: "\<not> verify ex_server ex_world ''bob@example.org'' ex_request"
    by blast
  from verify_true_only_if [of ex_server ex_world "''ann@example.org''" "ex_request\<lparr>Header := []\<rparr>"] 7
  have 9: "\<not> verify ex_server ex_world ''ann@example.org'' (ex_request\<lparr>Header := []\<rparr>)"
    by blast
  from 1 2 3 4 5 8 9 show ?thesis
    by (intro conjI)
qed

text \<open>
  The scheme is matched by \<open>(?:B|b)earer\<close>: only its first letter may be of either
  case, and a scheme written in capitals is not accepted.
\<close>

lemma verify_upper_case_scheme:
  "Header_Get (Header r) ''Authorization'' = ''BEARER '' @ tok \<Longrightarrow> \<not> verify s wd email r"
  by (simp add: verify_def bearerRegexp_FindStringSubmatch_def)

end
